theory Spec2Isabelle
  imports Complex_Main
begin

section \<open>The /mcp request handler of src/index.ts\<close>

text \<open>
  The repository is one Express handler, \<^verbatim>\<open>app.post('/mcp', ...)\<close>. The embedding follows
  it line by line. What the handler takes from outside is made explicit:
  \<^item> the request (the \<^verbatim>\<open>mcp-session-id\<close> header and \<^verbatim>\<open>req.body\<close> as \<^verbatim>\<open>express.json()\<close>
    left it; \<open>handler\<close> is the callback from line 35 on, for a body line 33 could read,
    and \<open>post_mcp\<close> is the whole callback);
  \<^item> the string \<^verbatim>\<open>randomUUID()\<close> returns when it is called;
  \<^item> the process-wide object \<^verbatim>\<open>sessions\<close>, passed in and returned;
  \<^item> the Google Maps client, the environment and the two library texts the handler
    only passes on (how a number prints, how a ZodError words its issues).
  Every \<^verbatim>\<open>throw\<close> is a value \<open>Inl\<close>, so the \<^verbatim>\<open>catch\<close> block is an ordinary case split, and
  what is thrown outside the \<^verbatim>\<open>try\<close> is a result \<open>Inl\<close> of the callback.
\<close>

subsection \<open>Decoded JSON values\<close>

text \<open>
  \<open>JUndefined\<close> is what reading a missing property yields. A number is kept by its
  value; the handler only tests it against zero and passes it on. (A literal too large
  for a double, which \<^verbatim>\<open>JSON.parse\<close> reads as \<^verbatim>\<open>Infinity\<close>, has no value here.) An object
  is the list of its members as parsed, each key once.
\<close>

datatype json =
    JUndefined
  | JNull
  | JBool bool
  | JNumber rat
  | JString string
  | JArray "json list"
  | JObject "(string \<times> json) list"

text \<open>Property access \<^verbatim>\<open>v[k]\<close> for the keys the handler reads (none of them is inherited).\<close>

fun member_of :: "json \<Rightarrow> string \<Rightarrow> json" where
  "member_of (JObject kvs) k = (case map_of kvs k of None \<Rightarrow> JUndefined | Some v \<Rightarrow> v)"
| "member_of _ k = JUndefined"

text \<open>The type names zod reports (\<^verbatim>\<open>getParsedType\<close>).\<close>

fun parsed_type :: "json \<Rightarrow> string" where
  "parsed_type JUndefined = ''undefined''"
| "parsed_type JNull = ''null''"
| "parsed_type (JBool _) = ''boolean''"
| "parsed_type (JNumber _) = ''number''"
| "parsed_type (JString _) = ''string''"
| "parsed_type (JArray _) = ''array''"
| "parsed_type (JObject _) = ''object''"

fun join_comma :: "string list \<Rightarrow> string" where
  "join_comma [] = []"
| "join_comma [s] = s"
| "join_comma (s # t # ss) = s @ '','' @ join_comma (t # ss)"

subsection \<open>Thrown values\<close>

text \<open>
  The \<^verbatim>\<open>catch\<close> block only asks whether the thrown value is an \<^verbatim>\<open>Error\<close> and, if so,
  for its message.
\<close>

datatype thrown = JsError string | NonError

definition quoted :: "string \<Rightarrow> string" where
  "quoted s = CHR 0x27 # s @ [CHR 0x27]"

subsection \<open>Template literals\<close>

text \<open>The first thrown value of a list of results, or all their values.\<close>

fun all_or_first_thrown :: "('e + 'a) list \<Rightarrow> 'e + 'a list" where
  "all_or_first_thrown [] = Inr []"
| "all_or_first_thrown (Inl e # rs) = Inl e"
| "all_or_first_thrown (Inr x # rs) =
     (case all_or_first_thrown rs of Inl e \<Rightarrow> Inl e | Inr xs \<Rightarrow> Inr (x # xs))"

text \<open>
  What a template literal \<^verbatim>\<open>`${v}`\<close> inserts for a decoded value: a string as it is,
  \<^verbatim>\<open>undefined\<close>, \<^verbatim>\<open>null\<close>, \<^verbatim>\<open>true\<close>, \<^verbatim>\<open>false\<close>, a number as the engine prints it, an
  array as its elements joined by commas (null and undefined elements print as nothing),
  an object as \<^verbatim>\<open>[object Object]\<close>. An object that has a \<^verbatim>\<open>toString\<close> member of its own hides
  \<^verbatim>\<open>Object.prototype.toString\<close> behind a value that cannot be called; \<^verbatim>\<open>valueOf\<close> does not
  yield a primitive either, and the conversion throws a TypeError. So does the
  conversion of an array that holds such an object.
\<close>

fun template_text :: "(rat \<Rightarrow> string) \<Rightarrow> json \<Rightarrow> thrown + string" where
  "template_text num JUndefined = Inr ''undefined''"
| "template_text num JNull = Inr ''null''"
| "template_text num (JBool b) = Inr (if b then ''true'' else ''false'')"
| "template_text num (JNumber r) = Inr (num r)"
| "template_text num (JString s) = Inr s"
| "template_text num (JArray vs) =
     (case all_or_first_thrown
             (map (\<lambda>v. if v = JUndefined \<or> v = JNull then Inr [] else template_text num v) vs) of
        Inl e \<Rightarrow> Inl e
      | Inr ts \<Rightarrow> Inr (join_comma ts))"
| "template_text num (JObject kvs) =
     (if map_of kvs ''toString'' = None then Inr ''[object Object]''
      else Inl (JsError ''Cannot convert object to primitive value''))"

text \<open>Decimal digits of an array length, as \<^verbatim>\<open>`${xs.length}`\<close> prints it.\<close>

definition digit_char :: "nat \<Rightarrow> char" where
  "digit_char d = ''0123456789'' ! d"

function nat_text :: "nat \<Rightarrow> string" where
  "nat_text n = (if n < 10 then [digit_char n] else nat_text (n div 10) @ [digit_char (n mod 10)])"
  by pat_completeness auto
termination
  by (relation "measure id") auto

subsection \<open>The session store\<close>

text \<open>
  \<^verbatim>\<open>const sessions: Record<string, any> = {}\<close> is a plain object, so \<^verbatim>\<open>sessions[k]\<close>
  finds the properties of \<^verbatim>\<open>Object.prototype\<close> too. \<open>own\<close> holds the records the
  handler stored; \<open>marked\<close> holds the inherited names whose built-in value has received
  an \<^verbatim>\<open>initialized\<close> property from line 46. Marking \<^verbatim>\<open>__proto__\<close> puts
  \<^verbatim>\<open>initialized = true\<close> on \<^verbatim>\<open>Object.prototype\<close> itself, after which
  \<^verbatim>\<open>sessions['initialized']\<close> reads the primitive \<^verbatim>\<open>true\<close>.
\<close>

record session =
  initialized :: bool

record sessions =
  own :: "string \<rightharpoonup> session"
  marked :: "string set"

definition no_sessions :: sessions where
  "no_sessions = \<lparr>own = Map.empty, marked = {}\<rparr>"

definition object_prototype_names :: "string list" where
  "object_prototype_names =
     [''constructor'', ''__defineGetter__'', ''__defineSetter__'', ''hasOwnProperty'',
      ''__lookupGetter__'', ''__lookupSetter__'', ''isPrototypeOf'',
      ''propertyIsEnumerable'', ''toString'', ''valueOf'', ''__proto__'',
      ''toLocaleString'']"

datatype slot = Absent | Own_record session | Inherited_object | Inherited_true

definition sessions_get :: "sessions \<Rightarrow> string \<Rightarrow> slot" where
  "sessions_get S k =
     (case own S k of
        Some s \<Rightarrow> Own_record s
      | None \<Rightarrow>
          if k \<in> set object_prototype_names then Inherited_object
          else if k = ''initialized'' \<and> ''__proto__'' \<in> marked S then Inherited_true
          else Absent)"

text \<open>Line 37: the header when it is a non-empty string, else a new UUID.\<close>

definition resolve_id :: "string option \<Rightarrow> string \<Rightarrow> string" where
  "resolve_id header uuid =
     (case header of None \<Rightarrow> uuid | Some h \<Rightarrow> if h = [] then uuid else h)"

text \<open>Lines 38-42: every slot but \<open>Absent\<close> is truthy.\<close>

definition ensure_session :: "sessions \<Rightarrow> string \<Rightarrow> sessions" where
  "ensure_session S sid =
     (if sessions_get S sid = Absent
      then S\<lparr>own := (own S)(sid \<mapsto> \<lparr>initialized = False\<rparr>)\<rparr>
      else S)"

text \<open>Lines 37-42 together: the resolved identifier and the store after resolution.\<close>

definition get_or_create :: "sessions \<Rightarrow> string option \<Rightarrow> string \<Rightarrow> string \<times> sessions" where
  "get_or_create S header uuid =
     (let sessionId = resolve_id header uuid in (sessionId, ensure_session S sessionId))"

text \<open>
  Line 46, \<^verbatim>\<open>sessions[sessionId].initialized = true\<close>. The module is strict code, so the
  assignment throws a TypeError on \<^verbatim>\<open>undefined\<close> and on the primitive \<^verbatim>\<open>true\<close>.
\<close>

definition set_initialized :: "sessions \<Rightarrow> string \<Rightarrow> thrown + sessions" where
  "set_initialized S sid =
     (case sessions_get S sid of
        Own_record s \<Rightarrow> Inr (S\<lparr>own := (own S)(sid \<mapsto> s\<lparr>initialized := True\<rparr>)\<rparr>)
      | Inherited_object \<Rightarrow> Inr (S\<lparr>marked := insert sid (marked S)\<rparr>)
      | Inherited_true \<Rightarrow>
          Inl (JsError (''Cannot create property '' @ quoted ''initialized'' @
                        '' on boolean '' @ quoted ''true''))
      | Absent \<Rightarrow>
          Inl (JsError (''Cannot set properties of undefined (setting '' @
                        quoted ''initialized'' @ '')'')))"

text \<open>Line 157, \<^verbatim>\<open>delete sessions[sessionId]\<close>: removes an own property, never an inherited one.\<close>

definition delete_session :: "sessions \<Rightarrow> string \<Rightarrow> sessions" where
  "delete_session S sid = S\<lparr>own := (own S)(sid := None)\<rparr>"

text \<open>
  What \<^verbatim>\<open>sessions[k].initialized\<close> reads: \<open>None\<close> when there is nothing to read it from
  or the property is missing. A marked \<^verbatim>\<open>__proto__\<close> lends the value \<^verbatim>\<open>true\<close> to every
  value that has no such property of its own.
\<close>

definition read_initialized :: "sessions \<Rightarrow> string \<Rightarrow> bool option" where
  "read_initialized S k =
     (case sessions_get S k of
        Absent \<Rightarrow> None
      | Own_record s \<Rightarrow> Some (initialized s)
      | Inherited_object \<Rightarrow>
          if k \<in> marked S \<or> ''__proto__'' \<in> marked S then Some True else None
      | Inherited_true \<Rightarrow> Some True)"

subsection \<open>The two zod schemas\<close>

datatype zod_issue = Invalid_type "string list" string string

fun issues :: "zod_issue list + 'a \<Rightarrow> zod_issue list" where
  "issues (Inl is) = is"
| "issues (Inr _) = []"

definition z_string :: "string list \<Rightarrow> json \<Rightarrow> zod_issue list + string" where
  "z_string path v =
     (case v of JString s \<Rightarrow> Inr s | _ \<Rightarrow> Inl [Invalid_type path ''string'' (parsed_type v)])"

definition z_number :: "string list \<Rightarrow> json \<Rightarrow> zod_issue list + rat" where
  "z_number path v =
     (case v of JNumber r \<Rightarrow> Inr r | _ \<Rightarrow> Inl [Invalid_type path ''number'' (parsed_type v)])"

text \<open>Lines 17-19.\<close>

definition geocodeSchema :: "json \<Rightarrow> zod_issue list + string" where
  "geocodeSchema v =
     (case v of
        JObject kvs \<Rightarrow> z_string [''address''] (member_of v ''address'')
      | _ \<Rightarrow> Inl [Invalid_type [] ''object'' (parsed_type v)])"

record latlng =
  lat :: rat
  lng :: rat

record places_search_params =
  query :: string
  location :: "latlng option"
  radius :: "rat option"

text \<open>Lines 24-27: the optional \<^verbatim>\<open>location\<close> object.\<close>

definition z_location :: "json \<Rightarrow> zod_issue list + latlng option" where
  "z_location v =
     (case v of
        JUndefined \<Rightarrow> Inr None
      | JObject kvs \<Rightarrow>
          (case (z_number [''location'', ''lat''] (member_of v ''lat''),
                 z_number [''location'', ''lng''] (member_of v ''lng'')) of
             (Inr a, Inr b) \<Rightarrow> Inr (Some \<lparr>lat = a, lng = b\<rparr>)
           | (a, b) \<Rightarrow> Inl (issues a @ issues b))
      | _ \<Rightarrow> Inl [Invalid_type [''location''] ''object'' (parsed_type v)])"

text \<open>Line 28: the optional \<^verbatim>\<open>radius\<close>.\<close>

definition z_radius :: "json \<Rightarrow> zod_issue list + rat option" where
  "z_radius v =
     (case v of
        JUndefined \<Rightarrow> Inr None
      | _ \<Rightarrow> (case z_number [''radius''] v of Inl is \<Rightarrow> Inl is | Inr r \<Rightarrow> Inr (Some r)))"

text \<open>Lines 22-29. zod reports the issues of every member, in the order of the shape.\<close>

definition placesSearchSchema :: "json \<Rightarrow> zod_issue list + places_search_params" where
  "placesSearchSchema v =
     (case v of
        JObject kvs \<Rightarrow>
          (case (z_string [''query''] (member_of v ''query''),
                 z_location (member_of v ''location''),
                 z_radius (member_of v ''radius'')) of
             (Inr q, Inr l, Inr r) \<Rightarrow> Inr \<lparr>query = q, location = l, radius = r\<rparr>
           | (q, l, r) \<Rightarrow> Inl (issues q @ issues l @ issues r))
      | _ \<Rightarrow> Inl [Invalid_type [] ''object'' (parsed_type v)])"

subsection \<open>The provider and the rest of the outside world\<close>

record geocode_result =
  formatted_address :: string
  geometry_location :: latlng
  place_id :: string

record place =
  p_name :: "string option"
  p_geometry :: "latlng option"
  p_place_id :: "string option"
  p_types :: "string list option"
  p_vicinity :: "string option"

record geocode_request =
  g_address :: string
  g_key :: "string option"

record places_request =
  n_location :: latlng
  n_radius :: rat
  n_keyword :: string
  n_key :: "string option"

datatype provider_call = Geocode geocode_request | PlacesNearby places_request

text \<open>
  \<open>client_geocode\<close> and \<open>client_placesNearby\<close> give \<^verbatim>\<open>response.data.results\<close> or the value
  the awaited call rejects with; \<open>env_key\<close> is \<^verbatim>\<open>process.env.GOOGLE_MAPS_API_KEY\<close>.
\<close>

record world =
  env_key :: "string option"
  client_geocode :: "geocode_request \<Rightarrow> thrown + geocode_result list"
  client_placesNearby :: "places_request \<Rightarrow> thrown + place list"
  number_text :: "rat \<Rightarrow> string"
  zod_text :: "zod_issue list \<Rightarrow> string"

subsection \<open>Responses\<close>

datatype schema = GeocodeSchema | PlacesSearchSchema

record tool =
  tool_name :: string
  description :: string
  parameters :: schema

record place_summary =
  s_name :: "string option"
  s_location :: "latlng option"
  s_place_id :: "string option"
  s_types :: "string list option"
  s_vicinity :: "string option"

datatype content_data =
    Geocode_data latlng string string
  | Places_data "place_summary list"

datatype content = Text_content string | Json_content content_data

datatype payload =
    Initialize_result string string string "tool list"
  | Content_result "content list"
  | Null_result

datatype envelope = Result payload | Error int string

record response =
  status :: nat
  jsonrpc :: string
  outcome :: envelope
  response_id :: json

text \<open>
  What the handler reads of a request: \<^verbatim>\<open>req.headers['mcp-session-id']\<close>, and the members
  of \<^verbatim>\<open>req.body\<close>, the object \<^verbatim>\<open>express.json()\<close> has decoded. (A decoded array has none of
  the members line 33 asks for and is the same as the empty object here.)
\<close>

record request =
  mcp_session_id :: "string option"
  body :: "(string \<times> json) list"

text \<open>Lines 57-68.\<close>

definition tools :: "tool list" where
  "tools =
     [\<lparr>tool_name = ''geocode'', description = ''Convert an address to coordinates'',
       parameters = GeocodeSchema\<rparr>,
      \<lparr>tool_name = ''places-search'',
       description = ''Search for places using Google Places API'',
       parameters = PlacesSearchSchema\<rparr>]"

subsection \<open>The handler\<close>

type_synonym try_result = "sessions \<times> provider_call list \<times> (thrown + payload)"

text \<open>Lines 79-113.\<close>

definition geocode_tool :: "world \<Rightarrow> json \<Rightarrow> provider_call list \<times> (thrown + payload)" where
  "geocode_tool w ps =
     (case geocodeSchema ps of
        Inl is \<Rightarrow> ([], Inl (JsError (zod_text w is)))
      | Inr address \<Rightarrow>
          (let rq = \<lparr>g_address = address, g_key = env_key w\<rparr> in
           case client_geocode w rq of
             Inl e \<Rightarrow> ([Geocode rq], Inl e)
           | Inr results \<Rightarrow>
               (case results of
                  [] \<Rightarrow> ([Geocode rq], Inl (JsError ''No results found''))
                | result # _ \<Rightarrow>
                    ([Geocode rq],
                     Inr (Content_result
                       [Text_content (''Found location: '' @ formatted_address result),
                        Json_content (Geocode_data (geometry_location result)
                          (formatted_address result) (place_id result))])))))"

text \<open>Lines 136-142.\<close>

definition summary :: "place \<Rightarrow> place_summary" where
  "summary p =
     \<lparr>s_name = p_name p, s_location = p_geometry p, s_place_id = p_place_id p,
      s_types = p_types p, s_vicinity = p_vicinity p\<rparr>"

text \<open>Lines 119-120: \<^verbatim>\<open>location || { lat: 0, lng: 0 }\<close> and \<^verbatim>\<open>radius || 5000\<close>.\<close>

definition location_or_default :: "latlng option \<Rightarrow> latlng" where
  "location_or_default l = (case l of None \<Rightarrow> \<lparr>lat = 0, lng = 0\<rparr> | Some x \<Rightarrow> x)"

definition radius_or_default :: "rat option \<Rightarrow> rat" where
  "radius_or_default r = (case r of None \<Rightarrow> 5000 | Some x \<Rightarrow> if x = 0 then 5000 else x)"

text \<open>Lines 115-148.\<close>

definition places_search_tool :: "world \<Rightarrow> json \<Rightarrow> provider_call list \<times> (thrown + payload)" where
  "places_search_tool w ps =
     (case placesSearchSchema ps of
        Inl is \<Rightarrow> ([], Inl (JsError (zod_text w is)))
      | Inr p \<Rightarrow>
          (let rq = \<lparr>n_location = location_or_default (location p),
                     n_radius = radius_or_default (radius p),
                     n_keyword = query p, n_key = env_key w\<rparr> in
           case client_placesNearby w rq of
             Inl e \<Rightarrow> ([PlacesNearby rq], Inl e)
           | Inr results \<Rightarrow>
               ([PlacesNearby rq],
                Inr (Content_result
                  [Text_content (''Found '' @ nat_text (length results) @ '' places''),
                   Json_content (Places_data (map summary results))]))))"

text \<open>
  \<^verbatim>\<open>throw new Error(`prefix${v}`)\<close>, lines 151 and 165: the template literal is evaluated
  first, so when the conversion of \<^verbatim>\<open>v\<close> throws, that is what is thrown; otherwise it is
  the new \<^verbatim>\<open>Error\<close> with the text as its message.
\<close>

definition new_Error :: "string \<Rightarrow> thrown + string \<Rightarrow> thrown" where
  "new_Error prefix text = (case text of Inl e \<Rightarrow> e | Inr t \<Rightarrow> JsError (prefix @ t))"

text \<open>
  Line 76, \<^verbatim>\<open>const { name, parameters } = params\<close>: a TypeError when \<^verbatim>\<open>params\<close> is
  \<^verbatim>\<open>undefined\<close> or \<^verbatim>\<open>null\<close> (the message is the engine's wording).
\<close>

definition destructure_params :: "json \<Rightarrow> thrown + json \<times> json" where
  "destructure_params params =
     (if params = JUndefined \<or> params = JNull
      then Inl (JsError (''Cannot destructure property '' @ quoted ''name'' @ '' of '' @
                         quoted ''params'' @ '' as it is '' @ parsed_type params @ ''.''))
      else Inr (member_of params ''name'', member_of params ''parameters''))"

text \<open>Lines 75-153.\<close>

definition callTool :: "world \<Rightarrow> json \<Rightarrow> provider_call list \<times> (thrown + payload)" where
  "callTool w params =
     (case destructure_params params of
        Inl e \<Rightarrow> ([], Inl e)
      | Inr (name, ps) \<Rightarrow>
          if name = JString ''geocode'' then geocode_tool w ps
          else if name = JString ''places-search'' then places_search_tool w ps
          else ([], Inl (new_Error ''Unknown tool: '' (template_text (number_text w) name))))"

text \<open>
  Line 33, \<^verbatim>\<open>const { method, params, id } = req.body\<close>, and the two names of line 76, read
  off a request.
\<close>

definition request_method :: "request \<Rightarrow> json" where
  "request_method rq = member_of (JObject (body rq)) ''method''"

definition request_params :: "request \<Rightarrow> json" where
  "request_params rq = member_of (JObject (body rq)) ''params''"

definition request_id :: "request \<Rightarrow> json" where
  "request_id rq = member_of (JObject (body rq)) ''id''"

definition call_name :: "request \<Rightarrow> json" where
  "call_name rq = member_of (request_params rq) ''name''"

definition call_parameters :: "request \<Rightarrow> json" where
  "call_parameters rq = member_of (request_params rq) ''parameters''"

text \<open>Lines 36-165, the body of the \<^verbatim>\<open>try\<close>.\<close>

definition try_block :: "world \<Rightarrow> sessions \<Rightarrow> string \<Rightarrow> request \<Rightarrow> try_result" where
  "try_block w S uuid rq =
     (let method = request_method rq;
          params = request_params rq;
          (sessionId, S1) = get_or_create S (mcp_session_id rq) uuid
      in
        if method = JString ''initialize'' then
          (case set_initialized S1 sessionId of
             Inl e \<Rightarrow> (S1, [], Inl e)
           | Inr S2 \<Rightarrow>
               (S2, [], Inr (Initialize_result ''google-maps-mcp'' ''1.0.0'' sessionId tools)))
        else if method = JString ''callTool'' then
          (case callTool w params of (calls, r) \<Rightarrow> (S1, calls, r))
        else if method = JString ''terminate'' then
          (delete_session S1 sessionId, [], Inr Null_result)
        else
          (S1, [], Inl (new_Error ''Unknown method: '' (template_text (number_text w) method))))"

text \<open>Lines 166-176, the \<^verbatim>\<open>catch\<close> block.\<close>

definition error_message :: "thrown \<Rightarrow> string" where
  "error_message e = (case e of JsError m \<Rightarrow> m | NonError \<Rightarrow> ''Internal server error'')"

text \<open>
  Lines 168-175, \<^verbatim>\<open>res.status(500).json(...)\<close>, and the shape every \<^verbatim>\<open>res.json(...)\<close> of
  the \<^verbatim>\<open>try\<close> has (status 200, Express's default); \<open>rid\<close> is the \<^verbatim>\<open>id\<close> of line 33.
\<close>

definition error_envelope :: "json \<Rightarrow> string \<Rightarrow> response" where
  "error_envelope rid m =
     \<lparr>status = 500, jsonrpc = ''2.0'', outcome = Error (- 32603) m, response_id = rid\<rparr>"

definition result_envelope :: "json \<Rightarrow> payload \<Rightarrow> response" where
  "result_envelope rid p =
     \<lparr>status = 200, jsonrpc = ''2.0'', outcome = Result p, response_id = rid\<rparr>"

definition respond :: "json \<Rightarrow> thrown + payload \<Rightarrow> response" where
  "respond rid r =
     (case r of
        Inr p \<Rightarrow> result_envelope rid p
      | Inl e \<Rightarrow> error_envelope rid (error_message e))"

text \<open>
  Lines 35-177 for a body whose members line 33 could read: the store the handler
  leaves, the provider calls it made, what it sends.
\<close>

definition handler :: "world \<Rightarrow> sessions \<Rightarrow> string \<Rightarrow> request \<Rightarrow> sessions \<times> provider_call list \<times> response" where
  "handler w S uuid rq =
     (case try_block w S uuid rq of
        (S', calls, r) \<Rightarrow> (S', calls, respond (request_id rq) r))"

definition sessions_after :: "sessions \<times> provider_call list \<times> response \<Rightarrow> sessions" where
  "sessions_after x = fst x"

definition calls_of :: "sessions \<times> provider_call list \<times> response \<Rightarrow> provider_call list" where
  "calls_of x = fst (snd x)"

definition response_of :: "sessions \<times> provider_call list \<times> response \<Rightarrow> response" where
  "response_of x = snd (snd x)"

text \<open>
  Line 33, \<^verbatim>\<open>const { method, params, id } = req.body\<close>, stands before the \<^verbatim>\<open>try\<close>.
  \<^verbatim>\<open>req.body\<close> is what \<^verbatim>\<open>express.json()\<close> left there: the decoded object or array, or
  \<^verbatim>\<open>undefined\<close> when the request had no JSON body to decode (Express 5). Destructuring
  \<^verbatim>\<open>undefined\<close> or \<^verbatim>\<open>null\<close> throws a TypeError (the message is the engine's wording);
  anything but an object has none of the three members.
\<close>

definition destructure_body :: "json \<Rightarrow> thrown + (string \<times> json) list" where
  "destructure_body b =
     (if b = JUndefined \<or> b = JNull
      then Inl (JsError (''Cannot destructure property '' @ quoted ''method'' @ '' of '' @
                         quoted ''req.body'' @ '' as it is '' @ parsed_type b @ ''.''))
      else case b of JObject kvs \<Rightarrow> Inr kvs | _ \<Rightarrow> Inr [])"

text \<open>
  Lines 32-177, the whole callback of \<^verbatim>\<open>app.post('/mcp', ...)\<close>: \<open>Inl\<close> is what the callback
  throws (its promise rejects with) instead of answering.
\<close>

definition post_mcp ::
  "world \<Rightarrow> sessions \<Rightarrow> string \<Rightarrow> string option \<Rightarrow> json \<Rightarrow>
     thrown + sessions \<times> provider_call list \<times> response" where
  "post_mcp w S uuid header b =
     (case destructure_body b of
        Inl e \<Rightarrow> Inl e
      | Inr members \<Rightarrow> Inr (handler w S uuid \<lparr>mcp_session_id = header, body = members\<rparr>))"

text \<open>Requests served one after the other, each with the UUID drawn for it.\<close>

fun serve :: "world \<Rightarrow> sessions \<Rightarrow> (string \<times> request) list \<Rightarrow> sessions \<times> response list" where
  "serve w S [] = (S, [])"
| "serve w S ((uuid, rq) # rest) =
     (let x = handler w S uuid rq;
          y = serve w (sessions_after x) rest
      in (fst y, response_of x # snd y))"

subsection \<open>A concrete world\<close>

text \<open>
  A provider that knows one address and one cafe, used where a statement is evaluated on
  concrete requests.
\<close>

definition sample_world :: world where
  "sample_world =
     \<lparr>env_key = Some ''key'',
      client_geocode = (\<lambda>rq.
        if g_address rq = ''Atlantis'' then Inr []
        else Inr [\<lparr>formatted_address = ''1600 Amphitheatre Parkway'',
                   geometry_location = \<lparr>lat = 37, lng = - 122\<rparr>, place_id = ''g1''\<rparr>]),
      client_placesNearby = (\<lambda>rq.
        Inr [\<lparr>p_name = Some ''Cafe'', p_geometry = None, p_place_id = Some ''c1'',
              p_types = Some [''cafe''], p_vicinity = None\<rparr>]),
      number_text = (\<lambda>r. ''7''),
      zod_text = (\<lambda>is. ''invalid input'')\<rparr>"

definition post :: "string option \<Rightarrow> (string \<times> json) list \<Rightarrow> request" where
  "post header members = \<lparr>mcp_session_id = header, body = members\<rparr>"

definition call :: "string \<Rightarrow> (string \<times> json) list \<Rightarrow> (string \<times> json) list" where
  "call name ps =
     [(''method'', JString ''callTool''),
      (''params'', JObject [(''name'', JString name), (''parameters'', JObject ps)])]"

definition failing_world :: world where
  "failing_world =
     sample_world
       \<lparr>client_geocode := (\<lambda>rq. Inl NonError),
        client_placesNearby := (\<lambda>rq. Inl (JsError ''Request failed with status code 403''))\<rparr>"

definition quiet_world :: world where
  "quiet_world = sample_world\<lparr>client_placesNearby := (\<lambda>rq. Inr [])\<rparr>"

section \<open>Properties\<close>

lemma nat_text_nonempty: "nat_text n \<noteq> []"
  by (induction n rule: nat_text.induct) (subst nat_text.simps, simp)

text \<open>The decimal text of a length determines the length.\<close>

lemma digit_char_inj:
  assumes "d < 10" and "e < 10" and "digit_char d = digit_char e"
  shows "d = e"
proof -
  have "distinct ''0123456789''" by simp
  moreover have "d < length ''0123456789''" "e < length ''0123456789''"
    using assms(1,2) by simp_all
  ultimately show ?thesis
    using assms(3) by (simp only: digit_char_def nth_eq_iff_index_eq)
qed

lemma nat_text_small: "n < 10 \<Longrightarrow> nat_text n = [digit_char n]"
  by (subst nat_text.simps) simp

lemma nat_text_large:
  "\<not> n < 10 \<Longrightarrow> nat_text n = nat_text (n div 10) @ [digit_char (n mod 10)]"
  by (subst nat_text.simps) simp

lemma nat_text_inj: "nat_text m = nat_text n \<Longrightarrow> m = n"
proof (induction m arbitrary: n rule: nat_text.induct)
  case (1 m)
  show ?case
  proof (cases "m < 10")
    case m: True
    show ?thesis
    proof (cases "n < 10")
      case True
      with m "1.prems" show ?thesis
        by (simp add: nat_text_small digit_char_inj)
    next
      case False
      with m "1.prems" nat_text_nonempty [of "n div 10"] show ?thesis
        by (simp add: nat_text_small nat_text_large)
    qed
  next
    case m: False
    show ?thesis
    proof (cases "n < 10")
      case True
      with m "1.prems" nat_text_nonempty [of "m div 10"] show ?thesis
        by (simp add: nat_text_small nat_text_large)
    next
      case False
      with m "1.prems" have "nat_text (m div 10) = nat_text (n div 10)"
        and "digit_char (m mod 10) = digit_char (n mod 10)"
        by (simp_all add: nat_text_large)
      then have "m div 10 = n div 10" and "m mod 10 = n mod 10"
        using "1.IH" [OF m] by (simp_all add: digit_char_inj)
      then show ?thesis
        by (metis div_mult_mod_eq)
    qed
  qed
qed

lemma found_text_counts:
  assumes "''Found '' @ nat_text m @ '' places'' = ''Found '' @ nat_text n @ '' places''"
  shows "m = n"
  using assms by (simp add: nat_text_inj)

text \<open>
  The text of a length is its decimal numeral: digits most significant first, without
  a leading zero, whose value is the length.
\<close>

lemma nat_text_decimal:
  "\<exists>ds. nat_text n = map (\<lambda>d. ''0123456789'' ! d) ds \<and> ds \<noteq> [] \<and>
     list_all (\<lambda>d. d < 10) ds \<and> (length ds = 1 \<or> hd ds \<noteq> 0) \<and>
     foldl (\<lambda>a d. 10 * a + d) 0 ds = n"
proof (induction n rule: nat_text.induct)
  case (1 n)
  show ?case
  proof (cases "n < 10")
    case True
    then have "nat_text n = map (\<lambda>d. ''0123456789'' ! d) [n] \<and> [n] \<noteq> [] \<and>
        list_all (\<lambda>d. d < 10) [n] \<and> (length [n] = 1 \<or> hd [n] \<noteq> 0) \<and>
        foldl (\<lambda>a d. 10 * a + d) 0 [n] = n"
      by (simp add: nat_text_small digit_char_def)
    then show ?thesis by (rule exI)
  next
    case False
    from "1.IH" [OF False] obtain ds where
      ds: "nat_text (n div 10) = map (\<lambda>d. ''0123456789'' ! d) ds" "ds \<noteq> []"
        "list_all (\<lambda>d. d < 10) ds" "length ds = 1 \<or> hd ds \<noteq> 0"
        "foldl (\<lambda>a d. 10 * a + d) 0 ds = n div 10"
      by blast
    from False have pos: "n div 10 \<noteq> 0" by simp
    have lead: "hd ds \<noteq> 0"
    proof (cases "length ds = 1")
      case True
      then obtain d where "ds = [d]" by (cases ds) auto
      with ds(5) pos show ?thesis by simp
    next
      case False
      with ds(4) show ?thesis by simp
    qed
    have "nat_text n = map (\<lambda>d. ''0123456789'' ! d) (ds @ [n mod 10]) \<and>
        ds @ [n mod 10] \<noteq> [] \<and> list_all (\<lambda>d. d < 10) (ds @ [n mod 10]) \<and>
        (length (ds @ [n mod 10]) = 1 \<or> hd (ds @ [n mod 10]) \<noteq> 0) \<and>
        foldl (\<lambda>a d. 10 * a + d) 0 (ds @ [n mod 10]) = n"
      using False ds lead by (simp add: nat_text_large digit_char_def)
    then show ?thesis by (rule exI)
  qed
qed

lemma decimal_value_zero:
  "foldl (\<lambda>a d. 10 * a + d) a ds = (0::nat) \<Longrightarrow> a = 0"
proof (induction ds arbitrary: a)
  case Nil
  then show ?case by simp
next
  case (Cons d ds)
  from Cons.prems have "foldl (\<lambda>a d. 10 * a + d) (10 * a + d) ds = 0" by simp
  then have "10 * a + d = 0" by (rule Cons.IH)
  then show ?case by simp
qed

lemma decimal_unique:
  assumes "ds \<noteq> []" and "list_all (\<lambda>d. d < 10) ds" and "length ds = 1 \<or> hd ds \<noteq> 0"
  shows "map (\<lambda>d. ''0123456789'' ! d) ds = nat_text (foldl (\<lambda>a d. 10 * a + d) 0 ds)"
  using assms
proof (induction ds rule: rev_induct)
  case Nil
  then show ?case by simp
next
  case (snoc d ds)
  from snoc.prems(2) have d: "d < 10" and small: "list_all (\<lambda>d. d < 10) ds"
    by simp_all
  show ?case
  proof (cases "ds = []")
    case True
    with d show ?thesis by (simp add: nat_text_small digit_char_def)
  next
    case False
    with snoc.prems(3) have lead: "hd ds \<noteq> 0" by (cases ds) auto
    have pos: "foldl (\<lambda>a d. 10 * a + d) 0 ds \<noteq> 0"
    proof
      assume zero: "foldl (\<lambda>a d. 10 * a + d) 0 ds = 0"
      from False obtain h t where ht: "ds = h # t" by (cases ds) auto
      with zero have "foldl (\<lambda>a d. 10 * a + d) h t = 0" by simp
      then have "h = 0" by (rule decimal_value_zero)
      with ht lead show False by simp
    qed
    from snoc.IH [OF False small] lead
    have IH: "map (\<lambda>d. ''0123456789'' ! d) ds = nat_text (foldl (\<lambda>a d. 10 * a + d) 0 ds)"
      by simp
    let ?v = "foldl (\<lambda>a d. 10 * a + d) 0 ds"
    from pos have big: "\<not> 10 * ?v + d < 10" by simp
    from d have "(10 * ?v + d) div 10 = ?v" and "(10 * ?v + d) mod 10 = d"
      by simp_all
    with big IH show ?thesis
      by (simp add: nat_text_large digit_char_def)
  qed
qed

subsection \<open>The branches of the handler\<close>

lemma respond_Inr: "respond rid (Inr p) = result_envelope rid p"
  by (simp add: respond_def)

lemma respond_Inl: "respond rid (Inl e) = error_envelope rid (error_message e)"
  by (simp add: respond_def)

lemma error_message_simps:
  "error_message (JsError m) = m"
  "error_message NonError = ''Internal server error''"
  by (simp_all add: error_message_def)

lemma response_of_handler:
  "response_of (handler w S uuid rq) = respond (request_id rq) (snd (snd (try_block w S uuid rq)))"
  by (simp add: handler_def response_of_def split: prod.splits)

lemma handler_initialize:
  assumes "request_method rq = JString ''initialize''"
  shows "handler w S uuid rq =
    (case set_initialized (ensure_session S (resolve_id (mcp_session_id rq) uuid))
            (resolve_id (mcp_session_id rq) uuid) of
       Inl e \<Rightarrow>
         (ensure_session S (resolve_id (mcp_session_id rq) uuid), [],
          respond (request_id rq) (Inl e))
     | Inr S2 \<Rightarrow>
         (S2, [],
          respond (request_id rq)
            (Inr (Initialize_result ''google-maps-mcp'' ''1.0.0''
                    (resolve_id (mcp_session_id rq) uuid) tools))))"
  using assms
  by (simp add: handler_def try_block_def get_or_create_def Let_def split: sum.splits)

lemma handler_callTool:
  assumes "request_method rq = JString ''callTool''"
  shows "handler w S uuid rq =
    (ensure_session S (resolve_id (mcp_session_id rq) uuid),
     fst (callTool w (request_params rq)),
     respond (request_id rq) (snd (callTool w (request_params rq))))"
  using assms
  by (simp add: handler_def try_block_def get_or_create_def Let_def split: prod.splits)

lemma handler_terminate:
  assumes "request_method rq = JString ''terminate''"
  shows "handler w S uuid rq =
    (delete_session (ensure_session S (resolve_id (mcp_session_id rq) uuid))
       (resolve_id (mcp_session_id rq) uuid),
     [], respond (request_id rq) (Inr Null_result))"
  using assms
  by (simp add: handler_def try_block_def get_or_create_def Let_def)

lemma handler_unknown_method:
  assumes "request_method rq \<noteq> JString ''initialize''"
    and "request_method rq \<noteq> JString ''callTool''"
    and "request_method rq \<noteq> JString ''terminate''"
  shows "handler w S uuid rq =
    (ensure_session S (resolve_id (mcp_session_id rq) uuid), [],
     respond (request_id rq)
       (Inl (new_Error ''Unknown method: ''
          (template_text (number_text w) (request_method rq)))))"
  using assms
  by (simp add: handler_def try_block_def get_or_create_def Let_def)

lemma callTool_geocode:
  assumes "member_of params ''name'' = JString ''geocode''"
  shows "callTool w params = geocode_tool w (member_of params ''parameters'')"
proof -
  from assms have "params \<noteq> JUndefined" "params \<noteq> JNull" by auto
  with assms show ?thesis by (simp add: callTool_def destructure_params_def)
qed

lemma callTool_places_search:
  assumes "member_of params ''name'' = JString ''places-search''"
  shows "callTool w params = places_search_tool w (member_of params ''parameters'')"
proof -
  from assms have "params \<noteq> JUndefined" "params \<noteq> JNull" by auto
  with assms show ?thesis by (simp add: callTool_def destructure_params_def)
qed

lemma callTool_unknown_tool:
  assumes "params \<noteq> JUndefined" and "params \<noteq> JNull"
    and "member_of params ''name'' \<noteq> JString ''geocode''"
    and "member_of params ''name'' \<noteq> JString ''places-search''"
  shows "callTool w params =
    ([], Inl (new_Error ''Unknown tool: ''
        (template_text (number_text w) (member_of params ''name''))))"
  using assms by (simp add: callTool_def destructure_params_def)

lemma callTool_no_params:
  assumes "params = JUndefined \<or> params = JNull"
  shows "callTool w params =
    ([], Inl (JsError (''Cannot destructure property '' @ quoted ''name'' @ '' of '' @
        quoted ''params'' @ '' as it is '' @ parsed_type params @ ''.'')))"
  using assms by (auto simp add: callTool_def destructure_params_def)

text \<open>A call of one of the two tools, seen from the handler.\<close>

lemma handler_geocode:
  assumes "request_method rq = JString ''callTool''"
    and "call_name rq = JString ''geocode''"
  shows "calls_of (handler w S uuid rq) = fst (geocode_tool w (call_parameters rq))"
    and "response_of (handler w S uuid rq) =
           respond (request_id rq) (snd (geocode_tool w (call_parameters rq)))"
  using assms
  by (simp_all add: handler_callTool callTool_geocode call_name_def call_parameters_def
      calls_of_def response_of_def)

lemma handler_places_search:
  assumes "request_method rq = JString ''callTool''"
    and "call_name rq = JString ''places-search''"
  shows "calls_of (handler w S uuid rq) = fst (places_search_tool w (call_parameters rq))"
    and "response_of (handler w S uuid rq) =
           respond (request_id rq) (snd (places_search_tool w (call_parameters rq)))"
  using assms
  by (simp_all add: handler_callTool callTool_places_search call_name_def call_parameters_def
      calls_of_def response_of_def)

lemma handler_unknown_tool:
  assumes "request_method rq = JString ''callTool''"
    and "request_params rq \<noteq> JUndefined" and "request_params rq \<noteq> JNull"
    and "call_name rq \<noteq> JString ''geocode''"
    and "call_name rq \<noteq> JString ''places-search''"
  shows "calls_of (handler w S uuid rq) = []"
    and "response_of (handler w S uuid rq) =
           respond (request_id rq)
             (Inl (new_Error ''Unknown tool: ''
                (template_text (number_text w) (call_name rq))))"
  using assms
  by (simp_all add: handler_callTool callTool_unknown_tool call_name_def calls_of_def
      response_of_def)

text \<open>What the two tools do once the schema has decided.\<close>

lemma geocode_tool_rejected:
  assumes "geocodeSchema ps = Inl is"
  shows "geocode_tool w ps = ([], Inl (JsError (zod_text w is)))"
  using assms by (simp add: geocode_tool_def)

lemma geocode_tool_accepted:
  assumes "geocodeSchema ps = Inr a"
  shows "fst (geocode_tool w ps) = [Geocode \<lparr>g_address = a, g_key = env_key w\<rparr>]"
  using assms by (simp add: geocode_tool_def Let_def split: sum.splits list.splits)

lemma geocode_tool_provider_failed:
  assumes "geocodeSchema ps = Inr a"
    and "client_geocode w \<lparr>g_address = a, g_key = env_key w\<rparr> = Inl e"
  shows "snd (geocode_tool w ps) = Inl e"
  using assms by (simp add: geocode_tool_def Let_def)

lemma geocode_tool_no_results:
  assumes "geocodeSchema ps = Inr a"
    and "client_geocode w \<lparr>g_address = a, g_key = env_key w\<rparr> = Inr []"
  shows "snd (geocode_tool w ps) = Inl (JsError ''No results found'')"
  using assms by (simp add: geocode_tool_def Let_def)

lemma places_search_tool_rejected:
  assumes "placesSearchSchema ps = Inl is"
  shows "places_search_tool w ps = ([], Inl (JsError (zod_text w is)))"
  using assms by (simp add: places_search_tool_def)

lemma places_search_tool_accepted:
  assumes "placesSearchSchema ps = Inr p"
  shows "fst (places_search_tool w ps) =
    [PlacesNearby \<lparr>n_location = location_or_default (location p),
       n_radius = radius_or_default (radius p), n_keyword = query p, n_key = env_key w\<rparr>]"
  using assms by (simp add: places_search_tool_def Let_def split: sum.splits)

lemma places_search_tool_provider_failed:
  assumes "placesSearchSchema ps = Inr p"
    and "client_placesNearby w \<lparr>n_location = location_or_default (location p),
       n_radius = radius_or_default (radius p), n_keyword = query p, n_key = env_key w\<rparr> = Inl e"
  shows "snd (places_search_tool w ps) = Inl e"
  using assms by (simp add: places_search_tool_def Let_def)

lemma places_search_tool_results:
  assumes "placesSearchSchema ps = Inr p"
    and "client_placesNearby w \<lparr>n_location = location_or_default (location p),
       n_radius = radius_or_default (radius p), n_keyword = query p, n_key = env_key w\<rparr> =
         Inr results"
  shows "snd (places_search_tool w ps) =
    Inr (Content_result
      [Text_content (''Found '' @ nat_text (length results) @ '' places''),
       Json_content (Places_data (map summary results))])"
  using assms by (simp add: places_search_tool_def Let_def)

text \<open>What the geocode schema lets through: a parameter object whose \<^verbatim>\<open>address\<close> is a string.\<close>

lemma geocodeSchema_accepts:
  "geocodeSchema ps = Inr a \<longleftrightarrow> member_of ps ''address'' = JString a"
proof (cases ps)
  case (JObject kvs)
  then show ?thesis
    by (cases "member_of (JObject kvs) ''address''") (auto simp add: geocodeSchema_def z_string_def)
qed (simp_all add: geocodeSchema_def)

lemma geocodeSchema_rejects:
  "(\<exists>is. geocodeSchema ps = Inl is) \<longleftrightarrow> (\<forall>a. member_of ps ''address'' \<noteq> JString a)"
proof -
  have "(\<exists>is. geocodeSchema ps = Inl is) \<longleftrightarrow> \<not> (\<exists>a. geocodeSchema ps = Inr a)"
    by (cases "geocodeSchema ps") simp_all
  then show ?thesis by (simp add: geocodeSchema_accepts)
qed

lemma geocodeSchema_issues_nonempty:
  assumes "geocodeSchema ps = Inl is"
  shows "is \<noteq> []"
  using assms
  by (cases ps; cases "member_of ps ''address''")
    (auto simp add: geocodeSchema_def z_string_def)

text \<open>
  What the places-search schema lets through: a parameter object whose \<^verbatim>\<open>query\<close> is a
  string, whose \<^verbatim>\<open>location\<close> is missing or an object with two numbers, and whose
  \<^verbatim>\<open>radius\<close> is missing or a number.
\<close>

lemma z_string_accepts: "z_string path v = Inr s \<longleftrightarrow> v = JString s"
  by (cases v) (auto simp add: z_string_def)

lemma z_radius_accepts:
  "z_radius v = Inr r \<longleftrightarrow> (v = JUndefined \<and> r = None) \<or> (\<exists>x. v = JNumber x \<and> r = Some x)"
  by (cases v) (auto simp add: z_radius_def z_number_def)

lemma z_location_missing: "z_location JUndefined = Inr None"
  by (simp add: z_location_def)

lemma placesSearchSchema_accepts:
  "placesSearchSchema ps = Inr p \<longleftrightarrow>
     (\<exists>kvs. ps = JObject kvs) \<and>
     member_of ps ''query'' = JString (query p) \<and>
     z_location (member_of ps ''location'') = Inr (location p) \<and>
     z_radius (member_of ps ''radius'') = Inr (radius p)"
proof (cases ps)
  case (JObject kvs)
  show ?thesis
  proof (cases "z_string [''query''] (member_of ps ''query'')")
    case (Inl a)
    then show ?thesis
      using JObject z_string_accepts [of "[''query'']" "member_of ps ''query''" "query p"]
      by (simp add: placesSearchSchema_def)
  next
    case q: (Inr q)
    show ?thesis
    proof (cases "z_location (member_of ps ''location'')")
      case (Inl a)
      then show ?thesis using JObject q by (simp add: placesSearchSchema_def)
    next
      case l: (Inr l)
      show ?thesis
      proof (cases "z_radius (member_of ps ''radius'')")
        case (Inl a)
        then show ?thesis using JObject q l by (simp add: placesSearchSchema_def)
      next
        case (Inr r)
        then show ?thesis
          using JObject q l z_string_accepts [of "[''query'']" "member_of ps ''query''"]
          by (cases p) (auto simp add: placesSearchSchema_def)
      qed
    qed
  qed
qed (simp_all add: placesSearchSchema_def)

lemma placesSearchSchema_missing_location:
  assumes "placesSearchSchema ps = Inr p" and "member_of ps ''location'' = JUndefined"
  shows "location p = None"
  using assms by (simp add: placesSearchSchema_accepts z_location_missing)

lemma placesSearchSchema_missing_radius:
  assumes "placesSearchSchema ps = Inr p" and "member_of ps ''radius'' = JUndefined"
  shows "radius p = None"
  using assms by (simp add: placesSearchSchema_accepts z_radius_accepts)

lemma placesSearchSchema_given_radius:
  assumes "placesSearchSchema ps = Inr p" and "member_of ps ''radius'' = JNumber x"
  shows "radius p = Some x"
  using assms by (simp add: placesSearchSchema_accepts z_radius_accepts)

lemma radius_or_default_nonzero: "radius_or_default r \<noteq> 0"
  by (cases r) (simp_all add: radius_or_default_def)

subsection \<open>The catch-all\<close>

text \<open>
  Inside the \<^verbatim>\<open>try\<close> nothing gets past the \<^verbatim>\<open>catch\<close>: for a body whose members line 33
  could read, whatever the \<^verbatim>\<open>try\<close> throws is answered with status 500 and the envelope
  of code -32603, whose message is the thrown error's message, or
  \<^verbatim>\<open>Internal server error\<close> when the thrown value is not an error; whatever it returns is
  answered with status 200.
\<close>

lemma try_block_is_answered:
  "response_of (handler w S uuid rq) =
     (case snd (snd (try_block w S uuid rq)) of
        Inr p \<Rightarrow>
          \<lparr>status = 200, jsonrpc = ''2.0'', outcome = Result p, response_id = request_id rq\<rparr>
      | Inl (JsError m) \<Rightarrow>
          \<lparr>status = 500, jsonrpc = ''2.0'', outcome = Error (- 32603) m,
           response_id = request_id rq\<rparr>
      | Inl NonError \<Rightarrow>
          \<lparr>status = 500, jsonrpc = ''2.0'',
           outcome = Error (- 32603) ''Internal server error'',
           response_id = request_id rq\<rparr>)"
  by (simp add: response_of_handler respond_def error_message_def error_envelope_def
      result_envelope_def split: sum.splits thrown.splits)

lemma rejected_parameters_are_answered:
  assumes "request_method rq = JString ''callTool''"
  shows "call_name rq = JString ''geocode'' \<Longrightarrow>
      geocodeSchema (call_parameters rq) = Inl iss \<Longrightarrow>
      response_of (handler w S uuid rq) =
        \<lparr>status = 500, jsonrpc = ''2.0'', outcome = Error (- 32603) (zod_text w iss),
         response_id = request_id rq\<rparr>"
    and "call_name rq = JString ''places-search'' \<Longrightarrow>
      placesSearchSchema (call_parameters rq) = Inl iss \<Longrightarrow>
      response_of (handler w S uuid rq) =
        \<lparr>status = 500, jsonrpc = ''2.0'', outcome = Error (- 32603) (zod_text w iss),
         response_id = request_id rq\<rparr>"
  using assms
  by (simp_all add: handler_geocode handler_places_search geocode_tool_rejected
      places_search_tool_rejected respond_Inl error_message_simps error_envelope_def)

lemma provider_failures_are_answered:
  assumes "request_method rq = JString ''callTool''"
  shows "call_name rq = JString ''geocode'' \<Longrightarrow>
      geocodeSchema (call_parameters rq) = Inr a \<Longrightarrow>
      client_geocode w \<lparr>g_address = a, g_key = env_key w\<rparr> = Inl e \<Longrightarrow>
      response_of (handler w S uuid rq) =
        \<lparr>status = 500, jsonrpc = ''2.0'',
         outcome = Error (- 32603)
           (case e of JsError m \<Rightarrow> m | NonError \<Rightarrow> ''Internal server error''),
         response_id = request_id rq\<rparr>"
    and "call_name rq = JString ''places-search'' \<Longrightarrow>
      placesSearchSchema (call_parameters rq) = Inr p \<Longrightarrow>
      client_placesNearby w
        \<lparr>n_location = location_or_default (location p),
         n_radius = radius_or_default (radius p), n_keyword = query p,
         n_key = env_key w\<rparr> = Inl e \<Longrightarrow>
      response_of (handler w S uuid rq) =
        \<lparr>status = 500, jsonrpc = ''2.0'',
         outcome = Error (- 32603)
           (case e of JsError m \<Rightarrow> m | NonError \<Rightarrow> ''Internal server error''),
         response_id = request_id rq\<rparr>"
  using assms
  by (simp_all add: handler_geocode handler_places_search geocode_tool_provider_failed
      places_search_tool_provider_failed respond_Inl error_message_def error_envelope_def)

lemma post_mcp_decoded:
  "post_mcp w S uuid header (JObject kvs) =
     Inr (handler w S uuid \<lparr>mcp_session_id = header, body = kvs\<rparr>)"
  by (simp add: post_mcp_def destructure_body_def)

lemma post_mcp_throws_iff:
  "(\<exists>e. post_mcp w S uuid header b = Inl e) \<longleftrightarrow> b = JUndefined \<or> b = JNull"
  by (cases b) (auto simp add: post_mcp_def destructure_body_def)

text \<open>
  C1 fails on the code. Line 33 destructures \<^verbatim>\<open>req.body\<close> before the \<^verbatim>\<open>try\<close> begins. A
  request whose body \<^verbatim>\<open>express.json()\<close> did not decode leaves \<^verbatim>\<open>req.body\<close> undefined, the
  destructuring throws a TypeError, and no \<^verbatim>\<open>catch\<close> of the callback is there to answer
  it: the callback throws instead of sending the error envelope.
\<close>

theorem undecoded_body_throws_past_the_catch:
  "post_mcp sample_world no_sessions ''u1'' None JUndefined =
     Inl (JsError (''Cannot destructure property '' @ quoted ''method'' @ '' of '' @
                   quoted ''req.body'' @ '' as it is undefined.''))"
  by (simp add: post_mcp_def destructure_body_def)

subsection \<open>Session resolution\<close>

lemma sessions_get_ensure_session: "sessions_get (ensure_session S sid) sid \<noteq> Absent"
proof (cases "sessions_get S sid = Absent")
  case True
  then show ?thesis by (simp add: ensure_session_def sessions_get_def)
next
  case False
  then show ?thesis by (simp add: ensure_session_def)
qed

lemma ensure_session_known:
  assumes "own S sid = Some s"
  shows "ensure_session S sid = S"
  using assms by (simp add: ensure_session_def sessions_get_def)

lemma delete_ensure_session:
  "delete_session (ensure_session S sid) sid = S\<lparr>own := (own S)(sid := None)\<rparr>"
  by (simp add: delete_session_def ensure_session_def)

text \<open>
  C2, as the code has it. The session identifier of a request is the caller's header
  whenever the header is a non-empty string, whether or not anything is stored under
  it; it is the newly drawn UUID only when the header is absent or empty. When the
  store has nothing under the resolved identifier, a record with
  \<^verbatim>\<open>initialized: false\<close> is created under that identifier and nothing else changes; when
  a record is stored under it, the store stays as it is. The handler works on that
  store: a request that is neither \<^verbatim>\<open>initialize\<close> nor \<^verbatim>\<open>terminate\<close> leaves exactly it
  behind.
\<close>

theorem session_is_got_or_created:
  "(header = None \<or> header = Some [] \<longrightarrow> fst (get_or_create S header uuid) = uuid)
   \<and> (\<forall>h. header = Some h \<and> h \<noteq> [] \<longrightarrow> fst (get_or_create S header uuid) = h)
   \<and> (sessions_get S (fst (get_or_create S header uuid)) = Absent \<longrightarrow>
        snd (get_or_create S header uuid) =
          S\<lparr>own := (own S)(fst (get_or_create S header uuid) \<mapsto> \<lparr>initialized = False\<rparr>)\<rparr>)
   \<and> (\<forall>s. own S (fst (get_or_create S header uuid)) = Some s \<longrightarrow>
        snd (get_or_create S header uuid) = S)
   \<and> (request_method rq \<noteq> JString ''initialize'' \<and> request_method rq \<noteq> JString ''terminate'' \<longrightarrow>
        sessions_after (handler w S uuid rq) = snd (get_or_create S (mcp_session_id rq) uuid))"
proof (intro conjI impI allI)
  assume "header = None \<or> header = Some []"
  then show "fst (get_or_create S header uuid) = uuid"
    by (auto simp add: get_or_create_def resolve_id_def Let_def)
next
  fix h
  assume "header = Some h \<and> h \<noteq> []"
  then show "fst (get_or_create S header uuid) = h"
    by (simp add: get_or_create_def resolve_id_def Let_def)
next
  assume "sessions_get S (fst (get_or_create S header uuid)) = Absent"
  then show "snd (get_or_create S header uuid) =
      S\<lparr>own := (own S)(fst (get_or_create S header uuid) \<mapsto> \<lparr>initialized = False\<rparr>)\<rparr>"
    by (simp add: get_or_create_def ensure_session_def Let_def)
next
  fix s
  assume "own S (fst (get_or_create S header uuid)) = Some s"
  then show "snd (get_or_create S header uuid) = S"
    by (simp add: get_or_create_def ensure_session_known Let_def)
next
  assume other: "request_method rq \<noteq> JString ''initialize'' \<and>
    request_method rq \<noteq> JString ''terminate''"
  show "sessions_after (handler w S uuid rq) = snd (get_or_create S (mcp_session_id rq) uuid)"
  proof (cases "request_method rq = JString ''callTool''")
    case True
    then show ?thesis
      by (simp add: handler_callTool sessions_after_def get_or_create_def Let_def)
  next
    case False
    with other show ?thesis
      by (simp add: handler_unknown_method sessions_after_def get_or_create_def Let_def)
  qed
qed

theorem session_is_got_or_created_witness:
  "fst (get_or_create no_sessions None ''u1'') = ''u1''
   \<and> fst (get_or_create no_sessions (Some ''abc'') ''u1'') = ''abc''
   \<and> own (snd (get_or_create no_sessions None ''u1'')) ''u1'' = Some \<lparr>initialized = False\<rparr>
   \<and> snd (get_or_create
        (no_sessions\<lparr>own := [''abc'' \<mapsto> \<lparr>initialized = True\<rparr>]\<rparr>) (Some ''abc'') ''u1'') =
      no_sessions\<lparr>own := [''abc'' \<mapsto> \<lparr>initialized = True\<rparr>]\<rparr>
   \<and> own (sessions_after (handler sample_world no_sessions ''u1''
        (post None [(''method'', JString ''ping'')]))) ''u1'' = Some \<lparr>initialized = False\<rparr>"
proof -
  let ?known = "no_sessions\<lparr>own := [''abc'' \<mapsto> \<lparr>initialized = True\<rparr>]\<rparr>"
  let ?ping = "post None [(''method'', JString ''ping'')]"
  have a: "sessions_get no_sessions ''u1'' = Absent"
    by (simp add: sessions_get_def no_sessions_def object_prototype_names_def)
  have 1: "fst (get_or_create no_sessions None ''u1'') = ''u1''"
    using session_is_got_or_created [of None no_sessions "''u1''"] by simp
  have 2: "fst (get_or_create no_sessions (Some ''abc'') ''u1'') = ''abc''"
    using session_is_got_or_created [of "Some ''abc''" no_sessions "''u1''"] by simp
  have 3: "own (snd (get_or_create no_sessions None ''u1'')) ''u1'' =
      Some \<lparr>initialized = False\<rparr>"
    using session_is_got_or_created [of None no_sessions "''u1''"] a by simp
  have 4: "snd (get_or_create ?known (Some ''abc'') ''u1'') = ?known"
    using session_is_got_or_created [of "Some ''abc''" ?known "''u1''"] by simp
  have 5: "own (sessions_after (handler sample_world no_sessions ''u1'' ?ping)) ''u1'' =
      Some \<lparr>initialized = False\<rparr>"
    using session_is_got_or_created [of None no_sessions "''u1''" ?ping sample_world] 3
    by (simp add: request_method_def post_def)
  from 1 2 3 4 5 show ?thesis by (intro conjI)
qed

text \<open>
  C2 as stated fails: a header that names no session is not replaced by a generated
  token. The record is created under the caller's own token, which the \<^verbatim>\<open>initialize\<close>
  result then reports, and nothing is stored under the UUID.
\<close>

theorem unknown_token_is_adopted:
  "own no_sessions ''abc'' = None
   \<and> own (sessions_after (handler sample_world no_sessions ''u1''
        (post (Some ''abc'') [(''method'', JString ''ping'')]))) ''abc'' =
      Some \<lparr>initialized = False\<rparr>
   \<and> own (sessions_after (handler sample_world no_sessions ''u1''
        (post (Some ''abc'') [(''method'', JString ''ping'')]))) ''u1'' = None
   \<and> outcome (response_of (handler sample_world no_sessions ''u1''
        (post (Some ''abc'') [(''method'', JString ''initialize'')]))) =
      Result (Initialize_result ''google-maps-mcp'' ''1.0.0'' ''abc'' tools)"
  by (simp add: handler_def try_block_def get_or_create_def resolve_id_def ensure_session_def
      set_initialized_def sessions_get_def no_sessions_def object_prototype_names_def
      request_method_def request_params_def post_def sessions_after_def response_of_def
      respond_def result_envelope_def Let_def)

subsection \<open>Validation of the geocode parameters\<close>

text \<open>
  C3, as the code has it. For a \<^verbatim>\<open>callTool\<close> request for \<^verbatim>\<open>geocode\<close>: when the parameters
  are not an object, or their \<^verbatim>\<open>address\<close> is missing or not a string, the schema reports
  at least one issue, the provider is not called and the answer is status 500 with the
  error envelope carrying the ZodError's message; when the \<^verbatim>\<open>address\<close> is a string, the
  empty string included, the provider is called once with exactly that string.
\<close>

theorem geocode_address_must_be_text:
  assumes "request_method rq = JString ''callTool''"
    and "call_name rq = JString ''geocode''"
  shows "((\<forall>a. member_of (call_parameters rq) ''address'' \<noteq> JString a) \<longrightarrow>
      (\<exists>is. is \<noteq> [] \<and> geocodeSchema (call_parameters rq) = Inl is \<and>
        response_of (handler w S uuid rq) =
          \<lparr>status = 500, jsonrpc = ''2.0'', outcome = Error (- 32603) (zod_text w is),
           response_id = request_id rq\<rparr>)
      \<and> calls_of (handler w S uuid rq) = [])
    \<and> (\<forall>a. member_of (call_parameters rq) ''address'' = JString a \<longrightarrow>
      calls_of (handler w S uuid rq) = [Geocode \<lparr>g_address = a, g_key = env_key w\<rparr>])"
proof (intro conjI impI allI)
  assume "\<forall>a. member_of (call_parameters rq) ''address'' \<noteq> JString a"
  then obtain iss where rej: "geocodeSchema (call_parameters rq) = Inl iss"
    using geocodeSchema_rejects by blast
  then have ne: "iss \<noteq> []" by (rule geocodeSchema_issues_nonempty)
  from assms rej have
    "response_of (handler w S uuid rq) =
       \<lparr>status = 500, jsonrpc = ''2.0'', outcome = Error (- 32603) (zod_text w iss),
        response_id = request_id rq\<rparr>"
    by (simp add: handler_geocode geocode_tool_rejected respond_Inl error_message_simps
        error_envelope_def)
  with ne rej show "\<exists>is. is \<noteq> [] \<and> geocodeSchema (call_parameters rq) = Inl is \<and>
      response_of (handler w S uuid rq) =
        \<lparr>status = 500, jsonrpc = ''2.0'', outcome = Error (- 32603) (zod_text w is),
         response_id = request_id rq\<rparr>"
    by blast
  from assms rej show "calls_of (handler w S uuid rq) = []"
    by (simp add: handler_geocode geocode_tool_rejected)
next
  fix a
  assume "member_of (call_parameters rq) ''address'' = JString a"
  then have "geocodeSchema (call_parameters rq) = Inr a"
    by (simp add: geocodeSchema_accepts)
  with assms show "calls_of (handler w S uuid rq) = [Geocode \<lparr>g_address = a, g_key = env_key w\<rparr>]"
    by (simp add: handler_geocode geocode_tool_accepted)
qed

theorem geocode_address_must_be_text_witness:
  "calls_of (handler sample_world no_sessions ''u1''
      (post None (call ''geocode'' [(''address'', JNumber 5)]))) = []
   \<and> calls_of (handler sample_world no_sessions ''u1''
      (post None (call ''geocode'' []))) = []
   \<and> calls_of (handler sample_world no_sessions ''u1''
      (post None (call ''geocode'' [(''address'', JString ''Paris'')]))) =
     [Geocode \<lparr>g_address = ''Paris'', g_key = Some ''key''\<rparr>]"
  using geocode_address_must_be_text [of
      "post None (call ''geocode'' [(''address'', JNumber 5)])" sample_world no_sessions "''u1''"]
    geocode_address_must_be_text [of
      "post None (call ''geocode'' [])" sample_world no_sessions "''u1''"]
    geocode_address_must_be_text [of
      "post None (call ''geocode'' [(''address'', JString ''Paris'')])"
      sample_world no_sessions "''u1''"]
  by (simp add: request_method_def request_params_def request_id_def call_name_def
      call_parameters_def post_def call_def sample_world_def)

text \<open>
  C3 as stated fails: the empty address passes the schema, is sent to the provider, and
  the request is answered with status 200.
\<close>

theorem empty_address_is_forwarded:
  "calls_of (handler sample_world no_sessions ''u1''
      (post None (call ''geocode'' [(''address'', JString '''')]))) =
     [Geocode \<lparr>g_address = '''', g_key = Some ''key''\<rparr>]
   \<and> status (response_of (handler sample_world no_sessions ''u1''
      (post None (call ''geocode'' [(''address'', JString '''')])))) = 200"
  by (simp add: handler_def try_block_def get_or_create_def request_method_def
      request_params_def callTool_def destructure_params_def geocode_tool_def
      geocodeSchema_def z_string_def post_def call_def sample_world_def calls_of_def
      response_of_def respond_def result_envelope_def Let_def)

subsection \<open>The echoed identifier\<close>

text \<open>
  C4. The \<^verbatim>\<open>id\<close> of the response is the \<^verbatim>\<open>id\<close> member of the request body, whatever the
  request is and whichever way the handler leaves: a missing member is echoed as
  \<^verbatim>\<open>undefined\<close> (which \<^verbatim>\<open>res.json\<close> leaves out again), \<^verbatim>\<open>null\<close> as \<^verbatim>\<open>null\<close>.
\<close>

theorem response_echoes_id:
  "response_id (response_of (handler w S uuid rq)) = request_id rq"
  by (simp add: response_of_handler respond_def error_envelope_def result_envelope_def
      split: sum.splits)

theorem response_echoes_id_witness:
  "response_id (response_of (handler sample_world no_sessions ''u1''
      (post None [(''method'', JString ''initialize''), (''id'', JNull)]))) = JNull
   \<and> response_id (response_of (handler sample_world no_sessions ''u1''
      (post None [(''method'', JString ''teleport'')]))) = JUndefined
   \<and> response_id (response_of (handler sample_world no_sessions ''u1''
      (post None (call ''geocode'' [] @ [(''id'', JString ''r-7'')])))) = JString ''r-7''"
  using response_echoes_id [of sample_world no_sessions "''u1''"
      "post None [(''method'', JString ''initialize''), (''id'', JNull)]"]
    response_echoes_id [of sample_world no_sessions "''u1''"
      "post None [(''method'', JString ''teleport'')]"]
    response_echoes_id [of sample_world no_sessions "''u1''"
      "post None (call ''geocode'' [] @ [(''id'', JString ''r-7'')])"]
  by (simp add: request_id_def post_def call_def)

subsection \<open>Places search: defaults and the count\<close>

text \<open>
  C5. For a \<^verbatim>\<open>callTool\<close> request for \<^verbatim>\<open>places-search\<close> whose parameters pass the schema, the
  provider's \<^verbatim>\<open>placesNearby\<close> is called once, with the keyword equal to the \<^verbatim>\<open>query\<close> of
  the request and the credential of the environment, with location \<^verbatim>\<open>{lat: 0, lng: 0}\<close>
  when the request has no \<^verbatim>\<open>location\<close> and with radius 5000 when it has no \<^verbatim>\<open>radius\<close>.
  When the provider answers with a list of places, the response has status 200, its
  structured part lists one record per place, in order, with the place's name,
  location, place id, types and vicinity, and its text is \<^verbatim>\<open>Found N places\<close> where N is
  the decimal numeral (no leading zero) whose value is the length of that list.
\<close>

theorem places_search_defaults_and_count:
  assumes "request_method rq = JString ''callTool''"
    and "call_name rq = JString ''places-search''"
    and "placesSearchSchema (call_parameters rq) = Inr p"
  shows "member_of (call_parameters rq) ''query'' = JString (query p)
    \<and> (\<exists>c. calls_of (handler w S uuid rq) = [PlacesNearby c]
        \<and> n_keyword c = query p \<and> n_key c = env_key w
        \<and> (member_of (call_parameters rq) ''location'' = JUndefined \<longrightarrow>
             n_location c = \<lparr>lat = 0, lng = 0\<rparr>)
        \<and> (member_of (call_parameters rq) ''radius'' = JUndefined \<longrightarrow> n_radius c = 5000)
        \<and> (\<forall>results. client_placesNearby w c = Inr results \<longrightarrow>
             (\<exists>places ds.
                places =
                  map (\<lambda>x. \<lparr>s_name = p_name x, s_location = p_geometry x,
                            s_place_id = p_place_id x, s_types = p_types x,
                            s_vicinity = p_vicinity x\<rparr>) results \<and>
                ds \<noteq> [] \<and> list_all (\<lambda>d. d < 10) ds \<and> (length ds = 1 \<or> hd ds \<noteq> 0) \<and>
                foldl (\<lambda>a d. 10 * a + d) 0 ds = length places \<and>
                response_of (handler w S uuid rq) =
                  \<lparr>status = 200, jsonrpc = ''2.0'',
                   outcome = Result (Content_result
                     [Text_content
                        (''Found '' @ map (\<lambda>d. ''0123456789'' ! d) ds @ '' places''),
                      Json_content (Places_data places)]),
                   response_id = request_id rq\<rparr>)))"
proof -
  let ?c = "\<lparr>n_location = location_or_default (location p),
             n_radius = radius_or_default (radius p), n_keyword = query p,
             n_key = env_key w\<rparr>"
  let ?answer = "\<lambda>results places ds.
      places =
        map (\<lambda>x. \<lparr>s_name = p_name x, s_location = p_geometry x,
                  s_place_id = p_place_id x, s_types = p_types x,
                  s_vicinity = p_vicinity x\<rparr>) results \<and>
      ds \<noteq> [] \<and> list_all (\<lambda>d. d < 10) ds \<and> (length ds = 1 \<or> hd ds \<noteq> 0) \<and>
      foldl (\<lambda>a d. 10 * a + d) 0 ds = length places \<and>
      response_of (handler w S uuid rq) =
        \<lparr>status = 200, jsonrpc = ''2.0'',
         outcome = Result (Content_result
           [Text_content (''Found '' @ map (\<lambda>d. ''0123456789'' ! d) ds @ '' places''),
            Json_content (Places_data places)]),
         response_id = request_id rq\<rparr>"
  from assms(3) have q: "member_of (call_parameters rq) ''query'' = JString (query p)"
    by (simp add: placesSearchSchema_accepts)
  from assms have calls: "calls_of (handler w S uuid rq) = [PlacesNearby ?c]"
    by (simp add: handler_places_search places_search_tool_accepted)
  have loc: "n_location ?c = \<lparr>lat = 0, lng = 0\<rparr>"
    if "member_of (call_parameters rq) ''location'' = JUndefined"
    using placesSearchSchema_missing_location [OF assms(3) that]
    by (simp add: location_or_default_def)
  have rad: "n_radius ?c = 5000"
    if "member_of (call_parameters rq) ''radius'' = JUndefined"
    using placesSearchSchema_missing_radius [OF assms(3) that]
    by (simp add: radius_or_default_def)
  have res: "\<exists>places ds. ?answer results places ds"
    if "client_placesNearby w ?c = Inr results" for results
  proof -
    from nat_text_decimal [of "length results"] obtain ds where
      ds: "nat_text (length results) = map (\<lambda>d. ''0123456789'' ! d) ds" "ds \<noteq> []"
        "list_all (\<lambda>d. d < 10) ds" "length ds = 1 \<or> hd ds \<noteq> 0"
        "foldl (\<lambda>a d. 10 * a + d) 0 ds = length results"
      by blast
    from assms that have "response_of (handler w S uuid rq) =
        \<lparr>status = 200, jsonrpc = ''2.0'',
         outcome = Result (Content_result
           [Text_content (''Found '' @ nat_text (length results) @ '' places''),
            Json_content (Places_data (map summary results))]),
         response_id = request_id rq\<rparr>"
      by (simp add: handler_places_search places_search_tool_results respond_Inr
          result_envelope_def)
    moreover have "map summary results =
        map (\<lambda>x. \<lparr>s_name = p_name x, s_location = p_geometry x,
                  s_place_id = p_place_id x, s_types = p_types x,
                  s_vicinity = p_vicinity x\<rparr>) results"
      by (simp add: summary_def)
    ultimately have "?answer results (map summary results) ds"
      using ds by simp
    then show ?thesis by blast
  qed
  show ?thesis
  proof (rule conjI [OF q], rule exI [of _ ?c], intro conjI impI allI)
    show "calls_of (handler w S uuid rq) = [PlacesNearby ?c]" by (rule calls)
    show "n_keyword ?c = query p" by simp
    show "n_key ?c = env_key w" by simp
    show "n_location ?c = \<lparr>lat = 0, lng = 0\<rparr>"
      if "member_of (call_parameters rq) ''location'' = JUndefined"
      using that by (rule loc)
    show "n_radius ?c = 5000"
      if "member_of (call_parameters rq) ''radius'' = JUndefined"
      using that by (rule rad)
    show "\<exists>places ds. ?answer results places ds"
      if "client_placesNearby w ?c = Inr results" for results
      using that by (rule res)
  qed
qed

theorem places_search_defaults_and_count_witness:
  "(\<exists>c. calls_of (handler sample_world no_sessions ''u1''
        (post None (call ''places-search'' [(''query'', JString ''coffee'')]))) = [PlacesNearby c]
      \<and> n_keyword c = ''coffee'' \<and> n_key c = Some ''key''
      \<and> n_location c = \<lparr>lat = 0, lng = 0\<rparr> \<and> n_radius c = 5000)
   \<and> response_of (handler sample_world no_sessions ''u1''
        (post None (call ''places-search'' [(''query'', JString ''coffee'')]))) =
      \<lparr>status = 200, jsonrpc = ''2.0'',
       outcome = Result (Content_result
         [Text_content ''Found 1 places'',
          Json_content (Places_data
            [\<lparr>s_name = Some ''Cafe'', s_location = None, s_place_id = Some ''c1'',
              s_types = Some [''cafe''], s_vicinity = None\<rparr>])]),
       response_id = JUndefined\<rparr>
   \<and> response_of (handler quiet_world no_sessions ''u1''
        (post None (call ''places-search'' [(''query'', JString ''coffee'')]))) =
      \<lparr>status = 200, jsonrpc = ''2.0'',
       outcome = Result (Content_result
         [Text_content ''Found 0 places'', Json_content (Places_data [])]),
       response_id = JUndefined\<rparr>"
proof -
  let ?rq = "post None (call ''places-search'' [(''query'', JString ''coffee'')])"
  let ?p = "\<lparr>query = ''coffee'', location = None, radius = None\<rparr>"
  have m: "request_method ?rq = JString ''callTool''"
    and n: "call_name ?rq = JString ''places-search''"
    and ps: "call_parameters ?rq = JObject [(''query'', JString ''coffee'')]"
    and i: "request_id ?rq = JUndefined"
    by (simp_all add: request_method_def call_name_def call_parameters_def request_params_def
        request_id_def post_def call_def)
  have v: "placesSearchSchema (call_parameters ?rq) = Inr ?p"
    by (simp add: ps placesSearchSchema_def z_string_def z_location_def z_radius_def)
  have answer: "response_of (handler w no_sessions ''u1'' ?rq) =
      \<lparr>status = 200, jsonrpc = ''2.0'',
       outcome = Result (Content_result
         [Text_content (''Found '' @ nat_text (length results) @ '' places''),
          Json_content (Places_data
            (map (\<lambda>x. \<lparr>s_name = p_name x, s_location = p_geometry x,
                      s_place_id = p_place_id x, s_types = p_types x,
                      s_vicinity = p_vicinity x\<rparr>) results))]),
       response_id = JUndefined\<rparr>"
    if key: "env_key w = Some ''key''"
      and results: "\<And>c. client_placesNearby w c = Inr results" for w results
  proof -
    from places_search_defaults_and_count [OF m n v, of w no_sessions "''u1''"]
    obtain c where "\<forall>results. client_placesNearby w c = Inr results \<longrightarrow>
        (\<exists>places ds.
           places =
             map (\<lambda>x. \<lparr>s_name = p_name x, s_location = p_geometry x,
                       s_place_id = p_place_id x, s_types = p_types x,
                       s_vicinity = p_vicinity x\<rparr>) results \<and>
           ds \<noteq> [] \<and> list_all (\<lambda>d. d < 10) ds \<and> (length ds = 1 \<or> hd ds \<noteq> 0) \<and>
           foldl (\<lambda>a d. 10 * a + d) 0 ds = length places \<and>
           response_of (handler w no_sessions ''u1'' ?rq) =
             \<lparr>status = 200, jsonrpc = ''2.0'',
              outcome = Result (Content_result
                [Text_content (''Found '' @ map (\<lambda>d. ''0123456789'' ! d) ds @ '' places''),
                 Json_content (Places_data places)]),
              response_id = request_id ?rq\<rparr>)"
      by blast
    with results obtain ds where ds: "ds \<noteq> []" "list_all (\<lambda>d. d < 10) ds"
        "length ds = 1 \<or> hd ds \<noteq> 0" "foldl (\<lambda>a d. 10 * a + d) 0 ds = length results"
      and r: "response_of (handler w no_sessions ''u1'' ?rq) =
         \<lparr>status = 200, jsonrpc = ''2.0'',
          outcome = Result (Content_result
            [Text_content (''Found '' @ map (\<lambda>d. ''0123456789'' ! d) ds @ '' places''),
             Json_content (Places_data
               (map (\<lambda>x. \<lparr>s_name = p_name x, s_location = p_geometry x,
                         s_place_id = p_place_id x, s_types = p_types x,
                         s_vicinity = p_vicinity x\<rparr>) results))]),
          response_id = request_id ?rq\<rparr>"
      by auto
    from decimal_unique [OF ds(1,2,3)] ds(4)
    have "map (\<lambda>d. ''0123456789'' ! d) ds = nat_text (length results)" by simp
    with r show ?thesis by (simp only: i)
  qed
  from places_search_defaults_and_count [OF m n v, of sample_world no_sessions "''u1''"]
  have 1: "\<exists>c. calls_of (handler sample_world no_sessions ''u1'' ?rq) = [PlacesNearby c]
      \<and> n_keyword c = ''coffee'' \<and> n_key c = Some ''key''
      \<and> n_location c = \<lparr>lat = 0, lng = 0\<rparr> \<and> n_radius c = 5000"
    by (auto simp add: ps sample_world_def)
  have 2: "response_of (handler sample_world no_sessions ''u1'' ?rq) =
      \<lparr>status = 200, jsonrpc = ''2.0'',
       outcome = Result (Content_result
         [Text_content ''Found 1 places'',
          Json_content (Places_data
            [\<lparr>s_name = Some ''Cafe'', s_location = None, s_place_id = Some ''c1'',
              s_types = Some [''cafe''], s_vicinity = None\<rparr>])]),
       response_id = JUndefined\<rparr>"
    using answer [of sample_world
        "[\<lparr>p_name = Some ''Cafe'', p_geometry = None, p_place_id = Some ''c1'',
           p_types = Some [''cafe''], p_vicinity = None\<rparr>]"]
    by (simp add: sample_world_def nat_text_small digit_char_def)
  have 3: "response_of (handler quiet_world no_sessions ''u1'' ?rq) =
      \<lparr>status = 200, jsonrpc = ''2.0'',
       outcome = Result (Content_result
         [Text_content ''Found 0 places'', Json_content (Places_data [])]),
       response_id = JUndefined\<rparr>"
    using answer [of quiet_world "[]"]
    by (simp add: quiet_world_def sample_world_def nat_text_small digit_char_def)
  from 1 2 3 show ?thesis by (intro conjI)
qed

subsection \<open>Geocoding without a result\<close>

text \<open>
  C6. A \<^verbatim>\<open>callTool\<close> request for \<^verbatim>\<open>geocode\<close> whose address is a string, and for which the
  provider answers with an empty result list, is answered with status 500 and the
  error envelope of code -32603 and message \<^verbatim>\<open>No results found\<close>; the provider was
  called once, with that address.
\<close>

theorem geocode_without_results_fails:
  assumes "request_method rq = JString ''callTool''"
    and "call_name rq = JString ''geocode''"
    and "member_of (call_parameters rq) ''address'' = JString a"
    and "client_geocode w \<lparr>g_address = a, g_key = env_key w\<rparr> = Inr []"
  shows "response_of (handler w S uuid rq) =
      \<lparr>status = 500, jsonrpc = ''2.0'', outcome = Error (- 32603) ''No results found'',
       response_id = request_id rq\<rparr>
    \<and> calls_of (handler w S uuid rq) = [Geocode \<lparr>g_address = a, g_key = env_key w\<rparr>]"
proof -
  from assms(3) have ok: "geocodeSchema (call_parameters rq) = Inr a"
    by (simp add: geocodeSchema_accepts)
  from assms(1,2) ok assms(4) show ?thesis
    by (simp add: handler_geocode geocode_tool_accepted geocode_tool_no_results respond_Inl
        error_message_simps error_envelope_def)
qed

theorem geocode_without_results_fails_witness:
  "response_of (handler sample_world no_sessions ''u1''
      (post None (call ''geocode'' [(''address'', JString ''Atlantis'')]))) =
     \<lparr>status = 500, jsonrpc = ''2.0'', outcome = Error (- 32603) ''No results found'',
      response_id = JUndefined\<rparr>
   \<and> calls_of (handler sample_world no_sessions ''u1''
      (post None (call ''geocode'' [(''address'', JString ''Atlantis'')]))) =
     [Geocode \<lparr>g_address = ''Atlantis'', g_key = Some ''key''\<rparr>]"
  using geocode_without_results_fails [of
      "post None (call ''geocode'' [(''address'', JString ''Atlantis'')])" "''Atlantis''"
      sample_world no_sessions "''u1''"]
  by (simp add: request_method_def request_params_def request_id_def call_name_def
      call_parameters_def post_def call_def sample_world_def)

subsection \<open>Termination of a session\<close>

text \<open>
  C7. A \<^verbatim>\<open>terminate\<close> request is answered with status 200 and the result \<^verbatim>\<open>null\<close>, calls
  no provider, and leaves the store without a record under the resolved identifier and
  otherwise as it was. When the store had nothing under that identifier, resolution
  first creates the fresh record that is then deleted. A second \<^verbatim>\<open>terminate\<close> right after
  the first, for the same token or any other, is answered in the same way.
\<close>

theorem terminate_removes_the_session:
  assumes "request_method rq = JString ''terminate''"
  shows "response_of (handler w S uuid rq) =
      \<lparr>status = 200, jsonrpc = ''2.0'', outcome = Result Null_result,
       response_id = request_id rq\<rparr>
    \<and> calls_of (handler w S uuid rq) = []
    \<and> sessions_after (handler w S uuid rq) =
        S\<lparr>own := (own S)(resolve_id (mcp_session_id rq) uuid := None)\<rparr>
    \<and> own (sessions_after (handler w S uuid rq)) (resolve_id (mcp_session_id rq) uuid) = None
    \<and> (sessions_get S (resolve_id (mcp_session_id rq) uuid) = Absent \<longrightarrow>
        own (snd (get_or_create S (mcp_session_id rq) uuid))
          (resolve_id (mcp_session_id rq) uuid) = Some \<lparr>initialized = False\<rparr>)
    \<and> (\<forall>rq' uuid'. request_method rq' = JString ''terminate'' \<longrightarrow>
        snd (serve w S [(uuid, rq), (uuid', rq')]) =
          [\<lparr>status = 200, jsonrpc = ''2.0'', outcome = Result Null_result,
            response_id = request_id rq\<rparr>,
           \<lparr>status = 200, jsonrpc = ''2.0'', outcome = Result Null_result,
            response_id = request_id rq'\<rparr>])"
proof -
  have answer: "response_of (handler w T u r) =
      \<lparr>status = 200, jsonrpc = ''2.0'', outcome = Result Null_result,
       response_id = request_id r\<rparr>"
    if "request_method r = JString ''terminate''" for T u r
    using that by (simp add: handler_terminate response_of_def respond_Inr result_envelope_def)
  have after: "sessions_after (handler w S uuid rq) =
      S\<lparr>own := (own S)(resolve_id (mcp_session_id rq) uuid := None)\<rparr>"
    using assms by (simp add: handler_terminate sessions_after_def delete_ensure_session)
  have fresh: "own (snd (get_or_create S (mcp_session_id rq) uuid))
        (resolve_id (mcp_session_id rq) uuid) = Some \<lparr>initialized = False\<rparr>"
    if "sessions_get S (resolve_id (mcp_session_id rq) uuid) = Absent"
    using that by (simp add: get_or_create_def ensure_session_def Let_def)
  have twice: "snd (serve w S [(uuid, rq), (uuid', rq')]) =
      [\<lparr>status = 200, jsonrpc = ''2.0'', outcome = Result Null_result,
        response_id = request_id rq\<rparr>,
       \<lparr>status = 200, jsonrpc = ''2.0'', outcome = Result Null_result,
        response_id = request_id rq'\<rparr>]"
    if "request_method rq' = JString ''terminate''" for rq' uuid'
    using answer [OF assms] answer [OF that] by (simp add: Let_def)
  show ?thesis
  proof (intro conjI allI impI)
    show "response_of (handler w S uuid rq) =
        \<lparr>status = 200, jsonrpc = ''2.0'', outcome = Result Null_result,
         response_id = request_id rq\<rparr>"
      using assms by (rule answer)
    show "calls_of (handler w S uuid rq) = []"
      using assms by (simp add: handler_terminate calls_of_def)
    show "sessions_after (handler w S uuid rq) =
        S\<lparr>own := (own S)(resolve_id (mcp_session_id rq) uuid := None)\<rparr>"
      by (rule after)
    show "own (sessions_after (handler w S uuid rq)) (resolve_id (mcp_session_id rq) uuid) = None"
      by (simp add: after)
    show "own (snd (get_or_create S (mcp_session_id rq) uuid))
        (resolve_id (mcp_session_id rq) uuid) = Some \<lparr>initialized = False\<rparr>"
      if "sessions_get S (resolve_id (mcp_session_id rq) uuid) = Absent"
      using that by (rule fresh)
    show "snd (serve w S [(uuid, rq), (uuid', rq')]) =
        [\<lparr>status = 200, jsonrpc = ''2.0'', outcome = Result Null_result,
          response_id = request_id rq\<rparr>,
         \<lparr>status = 200, jsonrpc = ''2.0'', outcome = Result Null_result,
          response_id = request_id rq'\<rparr>]"
      if "request_method rq' = JString ''terminate''" for rq' uuid'
      using that by (rule twice)
  qed
qed

theorem terminate_removes_the_session_witness:
  "response_of (handler sample_world
      (no_sessions\<lparr>own := [''abc'' \<mapsto> \<lparr>initialized = True\<rparr>]\<rparr>) ''u1''
      (post (Some ''abc'') [(''method'', JString ''terminate''), (''id'', JNumber 9)])) =
     \<lparr>status = 200, jsonrpc = ''2.0'', outcome = Result Null_result, response_id = JNumber 9\<rparr>
   \<and> own (sessions_after (handler sample_world
      (no_sessions\<lparr>own := [''abc'' \<mapsto> \<lparr>initialized = True\<rparr>]\<rparr>) ''u1''
      (post (Some ''abc'') [(''method'', JString ''terminate''), (''id'', JNumber 9)])))
        ''abc'' = None
   \<and> snd (serve sample_world no_sessions
      [(''u1'', post (Some ''abc'') [(''method'', JString ''terminate''), (''id'', JNumber 9)]),
       (''u2'', post (Some ''abc'') [(''method'', JString ''terminate'')])]) =
     [\<lparr>status = 200, jsonrpc = ''2.0'', outcome = Result Null_result, response_id = JNumber 9\<rparr>,
      \<lparr>status = 200, jsonrpc = ''2.0'', outcome = Result Null_result,
       response_id = JUndefined\<rparr>]"
proof -
  let ?known = "no_sessions\<lparr>own := [''abc'' \<mapsto> \<lparr>initialized = True\<rparr>]\<rparr>"
  let ?rq = "post (Some ''abc'') [(''method'', JString ''terminate''), (''id'', JNumber 9)]"
  let ?rq' = "post (Some ''abc'') [(''method'', JString ''terminate'')]"
  have m: "request_method ?rq = JString ''terminate''"
    and m': "request_method ?rq' = JString ''terminate''"
    and i: "request_id ?rq = JNumber 9" "request_id ?rq' = JUndefined"
    and h: "resolve_id (mcp_session_id ?rq) ''u1'' = ''abc''"
    by (simp_all add: request_method_def request_id_def resolve_id_def post_def)
  from terminate_removes_the_session [OF m, of sample_world ?known "''u1''"]
  have 1: "response_of (handler sample_world ?known ''u1'' ?rq) =
      \<lparr>status = 200, jsonrpc = ''2.0'', outcome = Result Null_result, response_id = JNumber 9\<rparr>"
    and 2: "own (sessions_after (handler sample_world ?known ''u1'' ?rq)) ''abc'' = None"
    by (simp_all add: i h)
  from terminate_removes_the_session [OF m, of sample_world no_sessions "''u1''"]
  have "\<forall>rq' uuid'. request_method rq' = JString ''terminate'' \<longrightarrow>
      snd (serve sample_world no_sessions [(''u1'', ?rq), (uuid', rq')]) =
        [\<lparr>status = 200, jsonrpc = ''2.0'', outcome = Result Null_result,
          response_id = request_id ?rq\<rparr>,
         \<lparr>status = 200, jsonrpc = ''2.0'', outcome = Result Null_result,
          response_id = request_id rq'\<rparr>]"
    by blast
  with m' have "snd (serve sample_world no_sessions [(''u1'', ?rq), (''u2'', ?rq')]) =
      [\<lparr>status = 200, jsonrpc = ''2.0'', outcome = Result Null_result,
        response_id = request_id ?rq\<rparr>,
       \<lparr>status = 200, jsonrpc = ''2.0'', outcome = Result Null_result,
        response_id = request_id ?rq'\<rparr>]"
    by blast
  then have 3: "snd (serve sample_world no_sessions [(''u1'', ?rq), (''u2'', ?rq')]) =
      [\<lparr>status = 200, jsonrpc = ''2.0'', outcome = Result Null_result,
        response_id = JNumber 9\<rparr>,
       \<lparr>status = 200, jsonrpc = ''2.0'', outcome = Result Null_result,
        response_id = JUndefined\<rparr>]"
    by (simp only: i)
  from 1 2 3 show ?thesis by (intro conjI)
qed

subsection \<open>Initialization\<close>

text \<open>
  What \<^verbatim>\<open>initialize\<close> does as long as the store does not read the primitive \<^verbatim>\<open>true\<close>
  under the resolved identifier: the answer has status 200 and carries the server's
  name and version, the resolved identifier and the two tool descriptors, and
  \<^verbatim>\<open>initialized\<close> then reads \<^verbatim>\<open>true\<close> under that identifier.
\<close>

lemma tools_are_geocode_and_places_search:
  "map tool_name tools = [''geocode'', ''places-search'']"
  by (simp add: tools_def)

theorem initialize_answers_and_marks:
  assumes "request_method rq = JString ''initialize''"
    and "sessions_get S (resolve_id (mcp_session_id rq) uuid) \<noteq> Inherited_true"
  shows "response_of (handler w S uuid rq) =
      \<lparr>status = 200, jsonrpc = ''2.0'',
       outcome = Result (Initialize_result ''google-maps-mcp'' ''1.0.0''
         (resolve_id (mcp_session_id rq) uuid) tools),
       response_id = request_id rq\<rparr>
    \<and> read_initialized (sessions_after (handler w S uuid rq))
          (resolve_id (mcp_session_id rq) uuid) = Some True
    \<and> calls_of (handler w S uuid rq) = []"
proof -
  let ?sid = "resolve_id (mcp_session_id rq) uuid"
  consider (absent) "sessions_get S ?sid = Absent"
    | (own) s where "sessions_get S ?sid = Own_record s"
    | (inherited) "sessions_get S ?sid = Inherited_object"
    using assms(2) by (cases "sessions_get S ?sid") auto
  then show ?thesis
  proof cases
    case absent
    then show ?thesis
      using assms(1)
      by (simp add: handler_initialize ensure_session_def set_initialized_def sessions_get_def
          read_initialized_def response_of_def sessions_after_def calls_of_def respond_Inr
          result_envelope_def)
  next
    case own
    then have "own S ?sid = Some s"
      by (auto simp add: sessions_get_def split: option.splits if_splits)
    with own show ?thesis
      using assms(1)
      by (simp add: handler_initialize ensure_session_def set_initialized_def sessions_get_def
          read_initialized_def response_of_def sessions_after_def calls_of_def respond_Inr
          result_envelope_def)
  next
    case inherited
    then have "own S ?sid = None" "?sid \<in> set object_prototype_names"
      by (auto simp add: sessions_get_def split: option.splits if_splits)
    with inherited show ?thesis
      using assms(1)
      by (simp add: handler_initialize ensure_session_def set_initialized_def sessions_get_def
          read_initialized_def response_of_def sessions_after_def calls_of_def respond_Inr
          result_envelope_def)
  qed
qed

theorem initialize_answers_and_marks_witness:
  "response_of (handler sample_world no_sessions ''u1''
      (post None [(''method'', JString ''initialize''), (''id'', JNumber 1)])) =
     \<lparr>status = 200, jsonrpc = ''2.0'',
      outcome = Result (Initialize_result ''google-maps-mcp'' ''1.0.0'' ''u1'' tools),
      response_id = JNumber 1\<rparr>
   \<and> read_initialized (sessions_after (handler sample_world no_sessions ''u1''
      (post None [(''method'', JString ''initialize''), (''id'', JNumber 1)]))) ''u1'' =
     Some True"
  using initialize_answers_and_marks [of
      "post None [(''method'', JString ''initialize''), (''id'', JNumber 1)]"
      no_sessions "''u1''" sample_world]
  by (simp add: request_method_def request_id_def resolve_id_def post_def sessions_get_def
      no_sessions_def object_prototype_names_def)

text \<open>
  C8 fails on the code. \<^verbatim>\<open>sessions\<close> is a plain object, so an \<^verbatim>\<open>initialize\<close> under the
  header \<^verbatim>\<open>__proto__\<close> finds \<^verbatim>\<open>Object.prototype\<close> instead of a session and line 46 writes
  \<^verbatim>\<open>initialized = true\<close> onto it. From then on \<^verbatim>\<open>sessions['initialized']\<close> is the primitive
  \<^verbatim>\<open>true\<close>: an \<^verbatim>\<open>initialize\<close> under the header \<^verbatim>\<open>initialized\<close> creates no record, line 46
  throws, and the request is answered with status 500 instead of the server identity
  and the tool descriptors.
\<close>

theorem initialize_fails_after_prototype_write:
  "snd (serve sample_world no_sessions
      [(''u1'', post (Some ''__proto__'') [(''method'', JString ''initialize''), (''id'', JNumber 1)]),
       (''u2'', post (Some ''initialized'')
          [(''method'', JString ''initialize''), (''id'', JNumber 2)])]) =
     [\<lparr>status = 200, jsonrpc = ''2.0'',
       outcome = Result (Initialize_result ''google-maps-mcp'' ''1.0.0'' ''__proto__'' tools),
       response_id = JNumber 1\<rparr>,
      \<lparr>status = 500, jsonrpc = ''2.0'',
       outcome = Error (- 32603)
         (''Cannot create property '' @ quoted ''initialized'' @ '' on boolean '' @
          quoted ''true''),
       response_id = JNumber 2\<rparr>]"
  by (simp add: handler_def try_block_def get_or_create_def resolve_id_def ensure_session_def
      set_initialized_def sessions_get_def no_sessions_def object_prototype_names_def
      request_method_def request_id_def post_def sessions_after_def response_of_def
      respond_def result_envelope_def error_envelope_def error_message_def Let_def)

subsection \<open>Unknown tools and unknown methods\<close>

lemma join_comma_concat:
  "join_comma ts = (case ts of [] \<Rightarrow> [] | t # r \<Rightarrow> t @ concat (map (\<lambda>x. CHR '','' # x) r))"
  by (induction ts rule: join_comma.induct) simp_all

lemma all_or_first_thrown_values: "all_or_first_thrown (map Inr xs) = Inr xs"
  by (induction xs) simp_all

lemma all_or_first_thrown_Inl:
  "all_or_first_thrown rs = Inl e \<Longrightarrow> Inl e \<in> set rs"
  by (induction rs rule: all_or_first_thrown.induct) (auto split: sum.splits)

lemma all_or_first_thrown_Inr:
  "all_or_first_thrown rs = Inr xs \<Longrightarrow> rs = map Inr xs"
  by (induction rs arbitrary: xs rule: all_or_first_thrown.induct) (auto split: sum.splits)

lemma template_text_thrown:
  "template_text num v = Inl e \<Longrightarrow> e = JsError ''Cannot convert object to primitive value''"
proof (induction num v arbitrary: e rule: template_text.induct)
  case (6 num vs)
  let ?el = "\<lambda>v. if v = JUndefined \<or> v = JNull then Inr [] else template_text num v"
  from "6.prems" have "all_or_first_thrown (map ?el vs) = Inl e"
    by (simp split: sum.splits)
  then have "Inl e \<in> set (map ?el vs)"
    by (rule all_or_first_thrown_Inl)
  then obtain v where v: "v \<in> set vs" and el: "?el v = Inl e"
    by auto
  from el have "\<not> (v = JUndefined \<or> v = JNull)" and "template_text num v = Inl e"
    by (auto split: if_splits)
  with v show ?case
    using "6.IH" by blast
next
  case (7 num kvs)
  then show ?case by (simp split: if_splits)
qed simp_all

lemma template_text_array_thrown:
  assumes "Inl e \<in> set (map (\<lambda>v. if v = JUndefined \<or> v = JNull then Inr []
                                 else template_text num v) vs)"
  shows "template_text num (JArray vs) =
    Inl (JsError ''Cannot convert object to primitive value'')"
proof (cases "template_text num (JArray vs)")
  case (Inl e')
  then show ?thesis using template_text_thrown by blast
next
  case (Inr t)
  then obtain ts where "all_or_first_thrown
      (map (\<lambda>v. if v = JUndefined \<or> v = JNull then Inr [] else template_text num v) vs) =
        Inr ts"
    by (auto split: sum.splits)
  then have "map (\<lambda>v. if v = JUndefined \<or> v = JNull then Inr [] else template_text num v) vs =
      map Inr ts"
    by (rule all_or_first_thrown_Inr)
  with assms show ?thesis by auto
qed

lemma template_text_array_values:
  assumes "map (\<lambda>v. if v = JUndefined \<or> v = JNull then Inr [] else template_text num v) vs =
      map Inr ts"
  shows "template_text num (JArray vs) =
    Inr (case ts of [] \<Rightarrow> [] | t # r \<Rightarrow> t @ concat (map (\<lambda>x. CHR '','' # x) r))"
  using assms by (simp add: all_or_first_thrown_values join_comma_concat)

lemma template_text_object:
  "template_text num (JObject kvs) =
     (if ''toString'' \<in> fst ` set kvs
      then Inl (JsError ''Cannot convert object to primitive value'')
      else Inr ''[object Object]'')"
  by (simp add: map_of_eq_None_iff)

lemma error_message_new_Error:
  "error_message (new_Error prefix (template_text num v)) =
     (case template_text num v of
        Inr t \<Rightarrow> prefix @ t
      | Inl e \<Rightarrow> ''Cannot convert object to primitive value'')"
proof (cases "template_text num v")
  case (Inl e)
  then show ?thesis
    using template_text_thrown [OF Inl] by (simp add: new_Error_def error_message_def)
next
  case (Inr t)
  then show ?thesis by (simp add: new_Error_def error_message_def)
qed

text \<open>
  C9, as the code has it. A \<^verbatim>\<open>callTool\<close> request whose \<^verbatim>\<open>params\<close> are there and whose
  \<^verbatim>\<open>name\<close> is neither \<^verbatim>\<open>geocode\<close> nor \<^verbatim>\<open>places-search\<close> is answered with status 500 and the
  envelope of code -32603, without a provider call; the message is \<^verbatim>\<open>Unknown tool: \<close>
  followed by the name as a template literal prints it, unless the name cannot be
  printed, in which case it is the TypeError's
  \<^verbatim>\<open>Cannot convert object to primitive value\<close>. A \<^verbatim>\<open>callTool\<close> request whose \<^verbatim>\<open>params\<close> are
  missing or \<^verbatim>\<open>null\<close> is answered in the same way with the message of the failed
  destructuring, which names no tool. A request whose method is none of
  \<^verbatim>\<open>initialize\<close>, \<^verbatim>\<open>callTool\<close>, \<^verbatim>\<open>terminate\<close> is answered like an unknown tool, with
  \<^verbatim>\<open>Unknown method: \<close> followed by the method. What a template literal prints: a string
  as it is; \<^verbatim>\<open>undefined\<close>, \<^verbatim>\<open>null\<close>, \<^verbatim>\<open>true\<close>, \<^verbatim>\<open>false\<close>; a number as the engine prints it;
  \<^verbatim>\<open>[object Object]\<close> for an object, which cannot be printed when it has a \<^verbatim>\<open>toString\<close>
  member of its own; for an array its elements' texts joined by commas, with nothing
  for \<^verbatim>\<open>null\<close> and \<^verbatim>\<open>undefined\<close> elements, and it cannot be printed when one of its elements
  cannot.
\<close>

theorem unknown_tool_and_method_are_answered:
  "(request_method rq = JString ''callTool'' \<and>
    request_params rq \<noteq> JUndefined \<and> request_params rq \<noteq> JNull \<and>
    call_name rq \<noteq> JString ''geocode'' \<and> call_name rq \<noteq> JString ''places-search'' \<longrightarrow>
      response_of (handler w S uuid rq) =
        \<lparr>status = 500, jsonrpc = ''2.0'',
         outcome = Error (- 32603)
           (case template_text (number_text w) (call_name rq) of
              Inr t \<Rightarrow> ''Unknown tool: '' @ t
            | Inl e \<Rightarrow> ''Cannot convert object to primitive value''),
         response_id = request_id rq\<rparr>
      \<and> calls_of (handler w S uuid rq) = [])
   \<and> (request_method rq = JString ''callTool'' \<and>
      (request_params rq = JUndefined \<or> request_params rq = JNull) \<longrightarrow>
      response_of (handler w S uuid rq) =
        \<lparr>status = 500, jsonrpc = ''2.0'',
         outcome = Error (- 32603)
           (''Cannot destructure property '' @ [CHR 0x27] @ ''name'' @ [CHR 0x27] @ '' of '' @
            [CHR 0x27] @ ''params'' @ [CHR 0x27] @ '' as it is '' @
            (if request_params rq = JNull then ''null'' else ''undefined'') @ ''.''),
         response_id = request_id rq\<rparr>
      \<and> calls_of (handler w S uuid rq) = [])
   \<and> (request_method rq \<noteq> JString ''initialize'' \<and> request_method rq \<noteq> JString ''callTool'' \<and>
      request_method rq \<noteq> JString ''terminate'' \<longrightarrow>
      response_of (handler w S uuid rq) =
        \<lparr>status = 500, jsonrpc = ''2.0'',
         outcome = Error (- 32603)
           (case template_text (number_text w) (request_method rq) of
              Inr t \<Rightarrow> ''Unknown method: '' @ t
            | Inl e \<Rightarrow> ''Cannot convert object to primitive value''),
         response_id = request_id rq\<rparr>
      \<and> calls_of (handler w S uuid rq) = [])
   \<and> (\<forall>s. template_text (number_text w) (JString s) = Inr s)
   \<and> template_text (number_text w) JUndefined = Inr ''undefined''
   \<and> template_text (number_text w) JNull = Inr ''null''
   \<and> template_text (number_text w) (JBool True) = Inr ''true''
   \<and> template_text (number_text w) (JBool False) = Inr ''false''
   \<and> (\<forall>r. template_text (number_text w) (JNumber r) = Inr (number_text w r))
   \<and> (\<forall>kvs. template_text (number_text w) (JObject kvs) =
        (if ''toString'' \<in> fst ` set kvs
         then Inl (JsError ''Cannot convert object to primitive value'')
         else Inr ''[object Object]''))
   \<and> (\<forall>vs ts.
        map (\<lambda>v. if v = JUndefined \<or> v = JNull then Inr []
                 else template_text (number_text w) v) vs = map Inr ts \<longrightarrow>
        template_text (number_text w) (JArray vs) =
          Inr (case ts of [] \<Rightarrow> [] | t # r \<Rightarrow> t @ concat (map (\<lambda>x. CHR '','' # x) r)))
   \<and> (\<forall>vs e.
        Inl e \<in> set (map (\<lambda>v. if v = JUndefined \<or> v = JNull then Inr []
                              else template_text (number_text w) v) vs) \<longrightarrow>
        template_text (number_text w) (JArray vs) =
          Inl (JsError ''Cannot convert object to primitive value''))"
  (is "?tool \<and> ?noparams \<and> ?unknown \<and> ?prints")
proof -
  have tool: ?tool
  proof (intro impI, elim conjE, intro conjI)
    assume a: "request_method rq = JString ''callTool''"
      "request_params rq \<noteq> JUndefined" "request_params rq \<noteq> JNull"
      "call_name rq \<noteq> JString ''geocode''" "call_name rq \<noteq> JString ''places-search''"
    then show "response_of (handler w S uuid rq) =
        \<lparr>status = 500, jsonrpc = ''2.0'',
         outcome = Error (- 32603)
           (case template_text (number_text w) (call_name rq) of
              Inr t \<Rightarrow> ''Unknown tool: '' @ t
            | Inl e \<Rightarrow> ''Cannot convert object to primitive value''),
         response_id = request_id rq\<rparr>"
      by (simp add: handler_unknown_tool respond_Inl error_message_new_Error
          error_envelope_def)
    from a show "calls_of (handler w S uuid rq) = []"
      by (simp add: handler_unknown_tool)
  qed
  have noparams: ?noparams
  proof (intro impI, elim conjE)
    assume m: "request_method rq = JString ''callTool''"
      and p: "request_params rq = JUndefined \<or> request_params rq = JNull"
    from p have "callTool w (request_params rq) =
      ([], Inl (JsError (''Cannot destructure property '' @ quoted ''name'' @ '' of '' @
          quoted ''params'' @ '' as it is '' @ parsed_type (request_params rq) @ ''.'')))"
      by (rule callTool_no_params)
    moreover from p have "parsed_type (request_params rq) =
        (if request_params rq = JNull then ''null'' else ''undefined'')"
      by auto
    ultimately show "response_of (handler w S uuid rq) =
        \<lparr>status = 500, jsonrpc = ''2.0'',
         outcome = Error (- 32603)
           (''Cannot destructure property '' @ [CHR 0x27] @ ''name'' @ [CHR 0x27] @ '' of '' @
            [CHR 0x27] @ ''params'' @ [CHR 0x27] @ '' as it is '' @
            (if request_params rq = JNull then ''null'' else ''undefined'') @ ''.''),
         response_id = request_id rq\<rparr>
      \<and> calls_of (handler w S uuid rq) = []"
      using m
      by (simp add: handler_callTool response_of_def calls_of_def respond_Inl
          error_message_simps error_envelope_def quoted_def)
  qed
  have unknown: ?unknown
  proof (intro impI, elim conjE)
    assume "request_method rq \<noteq> JString ''initialize''"
      and "request_method rq \<noteq> JString ''callTool''"
      and "request_method rq \<noteq> JString ''terminate''"
    then have "handler w S uuid rq =
      (ensure_session S (resolve_id (mcp_session_id rq) uuid), [],
       respond (request_id rq)
         (Inl (new_Error ''Unknown method: ''
            (template_text (number_text w) (request_method rq)))))"
      by (rule handler_unknown_method)
    then show "response_of (handler w S uuid rq) =
        \<lparr>status = 500, jsonrpc = ''2.0'',
         outcome = Error (- 32603)
           (case template_text (number_text w) (request_method rq) of
              Inr t \<Rightarrow> ''Unknown method: '' @ t
            | Inl e \<Rightarrow> ''Cannot convert object to primitive value''),
         response_id = request_id rq\<rparr>
      \<and> calls_of (handler w S uuid rq) = []"
      by (simp add: response_of_def calls_of_def respond_Inl error_message_new_Error
          error_envelope_def)
  qed
  have prints: ?prints
    using template_text_object template_text_array_values template_text_array_thrown
    by (intro conjI allI impI) (simp_all del: template_text.simps(6,7))
  show ?thesis
    by (rule conjI [OF tool conjI [OF noparams conjI [OF unknown prints]]])
qed

theorem unknown_tool_and_method_are_answered_witness:
  "response_of (handler sample_world no_sessions ''u1''
      (post None (call ''teleport'' [] @ [(''id'', JNumber 3)]))) =
     \<lparr>status = 500, jsonrpc = ''2.0'', outcome = Error (- 32603) ''Unknown tool: teleport'',
      response_id = JNumber 3\<rparr>
   \<and> response_of (handler sample_world no_sessions ''u1''
      (post (Some ''abc'') [(''method'', JString ''shutdown'')])) =
     \<lparr>status = 500, jsonrpc = ''2.0'', outcome = Error (- 32603) ''Unknown method: shutdown'',
      response_id = JUndefined\<rparr>
   \<and> response_of (handler sample_world no_sessions ''u1''
      (post None [(''method'', JString ''callTool''), (''params'', JObject [])])) =
     \<lparr>status = 500, jsonrpc = ''2.0'', outcome = Error (- 32603) ''Unknown tool: undefined'',
      response_id = JUndefined\<rparr>
   \<and> response_of (handler sample_world no_sessions ''u1''
      (post None [(''method'', JString ''callTool''),
         (''params'', JObject [(''name'', JArray [JNumber 1, JNull, JString ''a''])])])) =
     \<lparr>status = 500, jsonrpc = ''2.0'', outcome = Error (- 32603) ''Unknown tool: 7,,a'',
      response_id = JUndefined\<rparr>
   \<and> response_of (handler sample_world no_sessions ''u1''
      (post None [(''method'', JString ''callTool''), (''params'', JNull)])) =
     \<lparr>status = 500, jsonrpc = ''2.0'',
      outcome = Error (- 32603)
        (''Cannot destructure property '' @ [CHR 0x27] @ ''name'' @ [CHR 0x27] @ '' of '' @
         [CHR 0x27] @ ''params'' @ [CHR 0x27] @ '' as it is null.''),
      response_id = JUndefined\<rparr>"
proof -
  let ?teleport = "post None (call ''teleport'' [] @ [(''id'', JNumber 3)])"
  let ?shutdown = "post (Some ''abc'') [(''method'', JString ''shutdown'')]"
  let ?noname = "post None [(''method'', JString ''callTool''), (''params'', JObject [])]"
  let ?array = "post None [(''method'', JString ''callTool''),
         (''params'', JObject [(''name'', JArray [JNumber 1, JNull, JString ''a''])])]"
  let ?noparams = "post None [(''method'', JString ''callTool''), (''params'', JNull)]"
  note acc = request_method_def request_params_def request_id_def call_name_def post_def
    call_def
  have 1: "response_of (handler sample_world no_sessions ''u1'' ?teleport) =
     \<lparr>status = 500, jsonrpc = ''2.0'', outcome = Error (- 32603) ''Unknown tool: teleport'',
      response_id = JNumber 3\<rparr>"
    using unknown_tool_and_method_are_answered [of ?teleport sample_world no_sessions "''u1''"]
    by (simp add: acc)
  have 2: "response_of (handler sample_world no_sessions ''u1'' ?shutdown) =
     \<lparr>status = 500, jsonrpc = ''2.0'', outcome = Error (- 32603) ''Unknown method: shutdown'',
      response_id = JUndefined\<rparr>"
    using unknown_tool_and_method_are_answered [of ?shutdown sample_world no_sessions "''u1''"]
    by (simp add: acc)
  have 3: "response_of (handler sample_world no_sessions ''u1'' ?noname) =
     \<lparr>status = 500, jsonrpc = ''2.0'', outcome = Error (- 32603) ''Unknown tool: undefined'',
      response_id = JUndefined\<rparr>"
    using unknown_tool_and_method_are_answered [of ?noname sample_world no_sessions "''u1''"]
    by (simp add: acc)
  have 4: "response_of (handler sample_world no_sessions ''u1'' ?array) =
     \<lparr>status = 500, jsonrpc = ''2.0'', outcome = Error (- 32603) ''Unknown tool: 7,,a'',
      response_id = JUndefined\<rparr>"
    using unknown_tool_and_method_are_answered [of ?array sample_world no_sessions "''u1''"]
    by (simp add: acc sample_world_def)
  have 5: "response_of (handler sample_world no_sessions ''u1'' ?noparams) =
     \<lparr>status = 500, jsonrpc = ''2.0'',
      outcome = Error (- 32603)
        (''Cannot destructure property '' @ [CHR 0x27] @ ''name'' @ [CHR 0x27] @ '' of '' @
         [CHR 0x27] @ ''params'' @ [CHR 0x27] @ '' as it is null.''),
      response_id = JUndefined\<rparr>"
    using unknown_tool_and_method_are_answered [of ?noparams sample_world no_sessions "''u1''"]
    by (simp add: acc)
  from 1 2 3 4 5 show ?thesis by (intro conjI)
qed

text \<open>
  C9 as stated fails: the answer to a \<^verbatim>\<open>callTool\<close> request without \<^verbatim>\<open>params\<close> carries the
  message of the failed destructuring of line 76, and the answer to a tool name or a
  method that is an object with a \<^verbatim>\<open>toString\<close> member carries the message of the failed
  conversion. Neither names the unknown tool or method.
\<close>

theorem unknown_tool_is_not_always_named:
  "response_of (handler sample_world no_sessions ''u1''
      (post None [(''method'', JString ''callTool'')])) =
     \<lparr>status = 500, jsonrpc = ''2.0'',
      outcome = Error (- 32603)
        (''Cannot destructure property '' @ [CHR 0x27] @ ''name'' @ [CHR 0x27] @ '' of '' @
         [CHR 0x27] @ ''params'' @ [CHR 0x27] @ '' as it is undefined.''),
      response_id = JUndefined\<rparr>
   \<and> response_of (handler sample_world no_sessions ''u1''
      (post None [(''method'', JString ''callTool''),
         (''params'', JObject [(''name'', JObject [(''toString'', JNumber 1)])])])) =
     \<lparr>status = 500, jsonrpc = ''2.0'',
      outcome = Error (- 32603) ''Cannot convert object to primitive value'',
      response_id = JUndefined\<rparr>
   \<and> response_of (handler sample_world no_sessions ''u1''
      (post None [(''method'', JObject [(''toString'', JNull)])])) =
     \<lparr>status = 500, jsonrpc = ''2.0'',
      outcome = Error (- 32603) ''Cannot convert object to primitive value'',
      response_id = JUndefined\<rparr>"
  by (simp add: handler_def try_block_def get_or_create_def request_method_def
      request_params_def request_id_def callTool_def destructure_params_def new_Error_def
      quoted_def post_def response_of_def respond_def error_envelope_def error_message_def
      Let_def)

subsection \<open>A radius of zero\<close>

text \<open>
  C10. No call of \<^verbatim>\<open>placesNearby\<close> the handler makes carries the radius 0. A \<^verbatim>\<open>callTool\<close>
  request for \<^verbatim>\<open>places-search\<close> whose parameters pass the schema and give \<^verbatim>\<open>radius: 0\<close>
  calls the provider once, with radius 5000; and parameters that differ from these only
  in having no \<^verbatim>\<open>radius\<close> lead to the same provider call and the same outcome.
\<close>

theorem zero_radius_is_replaced_by_default:
  "list_all (\<lambda>c. case c of PlacesNearby r \<Rightarrow> n_radius r \<noteq> 0 | Geocode g \<Rightarrow> True)
      (calls_of (handler w S uuid rq))
   \<and> (request_method rq = JString ''callTool'' \<and> call_name rq = JString ''places-search'' \<and>
       placesSearchSchema (call_parameters rq) = Inr p \<and>
       member_of (call_parameters rq) ''radius'' = JNumber 0 \<longrightarrow>
        calls_of (handler w S uuid rq) =
          [PlacesNearby \<lparr>n_location = location_or_default (location p), n_radius = 5000,
             n_keyword = query p, n_key = env_key w\<rparr>]
        \<and> (\<forall>kvs. member_of (JObject kvs) ''query'' = member_of (call_parameters rq) ''query'' \<and>
              member_of (JObject kvs) ''location'' =
                member_of (call_parameters rq) ''location'' \<and>
              member_of (JObject kvs) ''radius'' = JUndefined \<longrightarrow>
              places_search_tool w (JObject kvs) = places_search_tool w (call_parameters rq)))"
  (is "?never \<and> ?zero")
proof
  show ?never
  proof (cases "request_method rq = JString ''callTool''")
    case call: True
    show ?thesis
    proof (cases "request_params rq = JUndefined \<or> request_params rq = JNull")
      case True
      with call show ?thesis
        by (simp add: handler_callTool callTool_no_params calls_of_def)
    next
      case False
      then show ?thesis
        using call
        by (simp add: handler_callTool callTool_def destructure_params_def calls_of_def
            geocode_tool_def places_search_tool_def radius_or_default_nonzero Let_def
            split: sum.splits list.splits)
    qed
  next
    case False
    then show ?thesis
      by (cases "request_method rq = JString ''initialize''";
          cases "request_method rq = JString ''terminate''")
        (simp_all add: handler_initialize handler_terminate handler_unknown_method calls_of_def
          split: sum.splits)
  qed
next
  show ?zero
  proof (intro impI, elim conjE, intro conjI allI impI)
    assume m: "request_method rq = JString ''callTool''"
      and n: "call_name rq = JString ''places-search''"
      and v: "placesSearchSchema (call_parameters rq) = Inr p"
      and z: "member_of (call_parameters rq) ''radius'' = JNumber 0"
    from v z have r: "radius p = Some 0"
      by (rule placesSearchSchema_given_radius)
    from m n v r show "calls_of (handler w S uuid rq) =
        [PlacesNearby \<lparr>n_location = location_or_default (location p), n_radius = 5000,
           n_keyword = query p, n_key = env_key w\<rparr>]"
      by (simp add: handler_places_search places_search_tool_accepted radius_or_default_def)
    fix kvs
    assume same: "member_of (JObject kvs) ''query'' = member_of (call_parameters rq) ''query'' \<and>
        member_of (JObject kvs) ''location'' = member_of (call_parameters rq) ''location'' \<and>
        member_of (JObject kvs) ''radius'' = JUndefined"
    with v have v': "placesSearchSchema (JObject kvs) = Inr (p\<lparr>radius := None\<rparr>)"
      by (simp add: placesSearchSchema_accepts z_radius_accepts)
    from v v' r show "places_search_tool w (JObject kvs) =
        places_search_tool w (call_parameters rq)"
      by (simp add: places_search_tool_def radius_or_default_def)
  qed
qed

theorem zero_radius_is_replaced_by_default_witness:
  "calls_of (handler sample_world no_sessions ''u1''
      (post None (call ''places-search''
         [(''query'', JString ''coffee''), (''radius'', JNumber 0)]))) =
     [PlacesNearby \<lparr>n_location = \<lparr>lat = 0, lng = 0\<rparr>, n_radius = 5000,
        n_keyword = ''coffee'', n_key = Some ''key''\<rparr>]
   \<and> places_search_tool sample_world (JObject [(''query'', JString ''coffee'')]) =
     places_search_tool sample_world
       (JObject [(''query'', JString ''coffee''), (''radius'', JNumber 0)])"
proof -
  let ?rq = "post None (call ''places-search''
         [(''query'', JString ''coffee''), (''radius'', JNumber 0)])"
  let ?p = "\<lparr>query = ''coffee'', location = None, radius = Some 0\<rparr>"
  have m: "request_method ?rq = JString ''callTool''"
    and n: "call_name ?rq = JString ''places-search''"
    and ps: "call_parameters ?rq =
      JObject [(''query'', JString ''coffee''), (''radius'', JNumber 0)]"
    by (simp_all add: request_method_def call_name_def call_parameters_def request_params_def
        post_def call_def)
  have v: "placesSearchSchema (call_parameters ?rq) = Inr ?p"
    by (simp add: ps placesSearchSchema_def z_string_def z_location_def z_radius_def
        z_number_def)
  have z: "member_of (call_parameters ?rq) ''radius'' = JNumber 0"
    by (simp add: ps)
  from zero_radius_is_replaced_by_default [of sample_world no_sessions "''u1''" ?rq ?p] m n v z
  have 1: "calls_of (handler sample_world no_sessions ''u1'' ?rq) =
      [PlacesNearby \<lparr>n_location = location_or_default (location ?p), n_radius = 5000,
         n_keyword = query ?p, n_key = env_key sample_world\<rparr>]"
    and 2: "\<forall>kvs. member_of (JObject kvs) ''query'' = member_of (call_parameters ?rq) ''query'' \<and>
        member_of (JObject kvs) ''location'' = member_of (call_parameters ?rq) ''location'' \<and>
        member_of (JObject kvs) ''radius'' = JUndefined \<longrightarrow>
        places_search_tool sample_world (JObject kvs) =
          places_search_tool sample_world (call_parameters ?rq)"
    by blast+
  from 2 have "places_search_tool sample_world (JObject [(''query'', JString ''coffee'')]) =
      places_search_tool sample_world (call_parameters ?rq)"
    by (simp add: ps)
  with 1 show ?thesis
    by (simp add: ps location_or_default_def sample_world_def)
qed

end
